theory Spec2Isabelle
  imports Main "HOL-Library.Word" "HOL-Library.Dlist"
begin

section \<open>Value types\<close>

type_synonym byte = "8 word"
type_synonym bytes = "byte list"

text \<open>
  Modelled from the spec: the classes \<open>Address\<close>, \<open>Wad\<close> and \<open>Receipt\<close> live in the
  package \<open>api\<close>, outside \<open>api/etherdelta.py\<close>. The spec gives an address as a 20-byte
  identifier compared by byte value and an amount as a fixed-point quantity backed by an
  integer and compared by that integer. The attribute \<open>.address\<close> of an \<open>Address\<close> is the
  20-byte value (the source holds its hexadecimal text), the attribute \<open>.value\<close> of a
  \<open>Wad\<close> is its integer.
\<close>

datatype Address = Address (address: "160 word")

datatype Wad = Wad (wad_value: int)

datatype Receipt = Receipt (transaction_hash: bytes)

section \<open>Order model\<close>

text \<open>
  \<open>class Order\<close> carries the five fields its constructor takes. Both subclasses set
  \<open>nonce\<close> and \<open>user\<close> in their own constructors; \<open>OffChainOrder\<close> adds the
  signature triple. \<open>LogOrder\<close> is a class of its own (not an \<open>Order\<close>) with the same
  seven attributes.
\<close>

record Order =
  token_get :: Address
  amount_get :: Wad
  token_give :: Address
  amount_give :: Wad
  expires :: int

record OnChainOrder = Order +
  nonce :: int
  user :: Address

record OffChainOrder = Order +
  nonce :: int
  user :: Address
  v :: int
  r :: bytes
  s :: bytes

record LogOrder =
  token_get :: Address
  amount_get :: Wad
  token_give :: Address
  amount_give :: Wad
  expires :: int
  nonce :: int
  user :: Address

text \<open>
  The values an untyped Python caller can hand to a method: a representative universe
  holding the classes of this module and the value types they are built from. The
  constructor is the run-time class that \<open>isinstance\<close> and \<open>hasattr\<close> look at.
\<close>

datatype pyval =
    PNone
  | PBool bool
  | PInt int
  | PStr string
  | PBytes bytes
  | PAddress Address
  | PWad Wad
  | POnChainOrder OnChainOrder
  | POffChainOrder OffChainOrder
  | PLogOrder LogOrder

datatype error =
    AssertionError
  | AttributeError
  | KeyError
  | ValueError
  | TypeError
  | EncodingError
  | SigningError
  | TransportError
  | Timeout

subsection \<open>Equality and hashing\<close>

text \<open>
  \<open>OnChainOrder.__eq__(self, other)\<close> and \<open>OffChainOrder.__eq__(self, other)\<close>: the
  \<open>isinstance\<close> test first, then the conjunction of the field comparisons in the order
  of the source.
\<close>

fun OnChainOrder_eq :: "OnChainOrder \<Rightarrow> pyval \<Rightarrow> bool" where
  "OnChainOrder_eq self (POnChainOrder other) =
     (Order.token_get self = Order.token_get other \<and>
      Order.amount_get self = Order.amount_get other \<and>
      Order.token_give self = Order.token_give other \<and>
      Order.amount_give self = Order.amount_give other \<and>
      Order.expires self = Order.expires other \<and>
      OnChainOrder.nonce self = OnChainOrder.nonce other \<and>
      OnChainOrder.user self = OnChainOrder.user other)"
| "OnChainOrder_eq self other = False"

fun OffChainOrder_eq :: "OffChainOrder \<Rightarrow> pyval \<Rightarrow> bool" where
  "OffChainOrder_eq self (POffChainOrder other) =
     (Order.token_get self = Order.token_get other \<and>
      Order.amount_get self = Order.amount_get other \<and>
      Order.token_give self = Order.token_give other \<and>
      Order.amount_give self = Order.amount_give other \<and>
      Order.expires self = Order.expires other \<and>
      OffChainOrder.nonce self = OffChainOrder.nonce other \<and>
      OffChainOrder.user self = OffChainOrder.user other \<and>
      v self = v other \<and>
      r self = r other \<and>
      s self = s other)"
| "OffChainOrder_eq self other = False"

text \<open>
  Python's builtin \<open>hash\<close>, as the parameter it is: one hash per value type and the
  combination of the component hashes of a tuple, in order.
\<close>

record hasher =
  hash_Address :: "Address \<Rightarrow> int"
  hash_Wad :: "Wad \<Rightarrow> int"
  hash_int :: "int \<Rightarrow> int"
  hash_bytes :: "bytes \<Rightarrow> int"
  hash_tuple :: "int list \<Rightarrow> int"

definition OnChainOrder_hash :: "hasher \<Rightarrow> OnChainOrder \<Rightarrow> int" where
  "OnChainOrder_hash H self =
     hash_tuple H [hash_Address H (Order.token_get self),
                   hash_Wad H (Order.amount_get self),
                   hash_Address H (Order.token_give self),
                   hash_Wad H (Order.amount_give self),
                   hash_int H (Order.expires self),
                   hash_int H (OnChainOrder.nonce self),
                   hash_Address H (OnChainOrder.user self)]"

definition OffChainOrder_hash :: "hasher \<Rightarrow> OffChainOrder \<Rightarrow> int" where
  "OffChainOrder_hash H self =
     hash_tuple H [hash_Address H (Order.token_get self),
                   hash_Wad H (Order.amount_get self),
                   hash_Address H (Order.token_give self),
                   hash_Wad H (Order.amount_give self),
                   hash_int H (Order.expires self),
                   hash_int H (OffChainOrder.nonce self),
                   hash_Address H (OffChainOrder.user self),
                   hash_int H (v self),
                   hash_bytes H (r self),
                   hash_bytes H (s self)]"

text \<open>\<open>LogOrder.to_order\<close>.\<close>

definition to_order :: "LogOrder \<Rightarrow> OnChainOrder" where
  "to_order self =
     OnChainOrder.make (LogOrder.token_get self) (LogOrder.amount_get self)
       (LogOrder.token_give self) (LogOrder.amount_give self)
       (LogOrder.expires self) (LogOrder.nonce self) (LogOrder.user self)"

section \<open>ABI encoding of the signing payload\<close>

text \<open>
  \<open>eth_abi\<close> is an external library. Its single encoders, as the source uses them:
  the \<open>address\<close> encoder returns the 32-byte word holding the 20 address bytes
  left-padded with zeros; the \<open>uint256\<close> encoder refuses a value outside
  \<open>[0, 2^256 - 1]\<close> and otherwise returns the value as 32 big-endian bytes.
\<close>

primrec to_bytes_big :: "nat \<Rightarrow> nat \<Rightarrow> bytes" where
  "to_bytes_big 0 x = []"
| "to_bytes_big (Suc k) x = to_bytes_big k (x div 256) @ [of_nat (x mod 256)]"

definition abi_encode_address :: "Address \<Rightarrow> bytes" where
  "abi_encode_address a = to_bytes_big 32 (unat (address a))"

definition abi_encode_uint256 :: "int \<Rightarrow> error + bytes" where
  "abi_encode_uint256 x =
     (if 0 \<le> x \<and> x \<le> 2 ^ 256 - 1 then Inr (to_bytes_big 32 (nat x)) else Inl EncodingError)"

text \<open>The two local helpers of \<open>place_order_offchain\<close>.\<close>

definition encode_address :: "Address \<Rightarrow> bytes" where
  "encode_address a = drop 12 (abi_encode_address a)"

definition encode_uint256 :: "int \<Rightarrow> error + bytes" where
  "encode_uint256 x = abi_encode_uint256 x"

text \<open>
  The argument of \<open>hashlib.sha256\<close> in \<open>place_order_offchain\<close>: the seven encodings
  concatenated in the order of the source. An encoder that raises ends the evaluation.
\<close>

definition order_message ::
  "Address \<Rightarrow> Address \<Rightarrow> Wad \<Rightarrow> Address \<Rightarrow> Wad \<Rightarrow> int \<Rightarrow> int \<Rightarrow> error + bytes" where
  "order_message contract tg ag tv av ex n =
     (case encode_uint256 (wad_value ag) of
        Inl e \<Rightarrow> Inl e
      | Inr b_ag \<Rightarrow>
     (case encode_uint256 (wad_value av) of
        Inl e \<Rightarrow> Inl e
      | Inr b_av \<Rightarrow>
     (case encode_uint256 ex of
        Inl e \<Rightarrow> Inl e
      | Inr b_ex \<Rightarrow>
     (case encode_uint256 n of
        Inl e \<Rightarrow> Inl e
      | Inr b_n \<Rightarrow>
          Inr (encode_address contract @ encode_address tg @ b_ag @
               encode_address tv @ b_av @ b_ex @ b_n)))))"

text \<open>
  The reading of a byte string as a big-endian unsigned integer, and a slice
  \<open>m[i : i + k]\<close>: the words in which the spec lays the message out.
\<close>

definition from_bytes_big :: "bytes \<Rightarrow> nat" where
  "from_bytes_big bs = foldl (\<lambda>acc b. acc * 256 + unat b) 0 bs"

definition bytes_slice :: "'a list \<Rightarrow> nat \<Rightarrow> nat \<Rightarrow> 'a list" where
  "bytes_slice m i k = take k (drop i m)"

section \<open>Hexadecimal text\<close>

definition hex_digit :: "char \<Rightarrow> nat option" where
  "hex_digit c =
     (let k = (of_char c :: nat) in
      if 48 \<le> k \<and> k \<le> 57 then Some (k - 48)
      else if 97 \<le> k \<and> k \<le> 102 then Some (k - 87)
      else if 65 \<le> k \<and> k \<le> 70 then Some (k - 55)
      else None)"

text \<open>
  \<open>bytes.fromhex\<close>: two hexadecimal digits per byte; ASCII whitespace (space, tab,
  line feed, vertical tab, form feed, carriage return) is skipped before and after a
  byte, never between the two digits of one; \<open>ValueError\<close> on anything else.
  \<open>ord\<close> of a byte string wants exactly one byte.
\<close>

definition is_ascii_space :: "char \<Rightarrow> bool" where
  "is_ascii_space c = (let k = (of_char c :: nat) in k = 32 \<or> (9 \<le> k \<and> k \<le> 13))"

fun fromhex :: "string \<Rightarrow> error + bytes" where
  "fromhex [] = Inr []"
| "fromhex [c] = (if is_ascii_space c then Inr [] else Inl ValueError)"
| "fromhex (a # b # cs) =
     (if is_ascii_space a then fromhex (b # cs)
      else
        (case (hex_digit a, hex_digit b) of
           (Some x, Some y) \<Rightarrow>
             (case fromhex cs of
                Inl e \<Rightarrow> Inl e
              | Inr bs \<Rightarrow> Inr (of_nat (16 * x + y) # bs))
         | _ \<Rightarrow> Inl ValueError))"

definition ord :: "bytes \<Rightarrow> error + int" where
  "ord bs = (case bs of [b] \<Rightarrow> Inr (uint b) | _ \<Rightarrow> Inl TypeError)"

text \<open>
  Modelled from the spec: \<open>bytes_to_0xhexstring\<close> of \<open>api.util\<close> is outside this
  module; the spec has byte fields hex-encoded with a \<open>0x\<close> prefix.
\<close>

definition hex_char :: "nat \<Rightarrow> char" where
  "hex_char k = (if k < 10 then char_of (48 + k) else char_of (87 + k))"

definition bytes_to_0xhexstring :: "bytes \<Rightarrow> string" where
  "bytes_to_0xhexstring bs =
     ''0x'' @ concat (map (\<lambda>b. [hex_char (unat b div 16), hex_char (unat b mod 16)]) bs)"

text \<open>Python's \<open>pat in text\<close> on strings.\<close>

fun contains :: "string \<Rightarrow> string \<Rightarrow> bool" where
  "contains pat [] = (pat = [])"
| "contains pat (c # cs) = (take (length pat) (c # cs) = pat \<or> contains pat cs)"

section \<open>The collaborators and the client's state\<close>

datatype abi_value = AbiAddress Address | AbiUint int | AbiBytes bytes

datatype json = JInt int | JStr string | JAddress Address

record response =
  status_code :: nat
  response_text :: string

text \<open>
  Every request the client hands to a collaborator is appended to a trace: read-only
  contract calls, transactions (with the ether value sent along), the registration of an
  event handler, the query for past events, the signing request and the relay POST (URL,
  message, timeout in seconds).
\<close>

datatype action =
    Call string "abi_value list"
  | Transact string "abi_value list" int
  | OnEvent string
  | PastEvents string int
  | EthSign Address bytes
  | Post string "(string \<times> json) list" nat

text \<open>
  What the collaborators answer. \<open>self_address\<close> is \<open>self.address\<close>,
  \<open>defaultAccount\<close> is \<open>self.web3.eth.defaultAccount\<close>, \<open>entropy\<close> feeds
  \<open>random.randint\<close>, \<open>sha256\<close> is \<open>hashlib.sha256(...).digest()\<close>. A read-only call,
  the past-event query, the signer and the HTTP client either answer or raise.

  Modelled from the spec: \<open>Contract._transact\<close>, \<open>Contract._on_event\<close> and
  \<open>Contract._past_events\<close> are in the package \<open>api\<close>, outside this module.
  A transaction yields a receipt or, on failure, no result (never an exception);
  a subscription registers a handler that the event delivery invokes on each matching
  log; the historical query returns the decoded events of the last given number of blocks.
\<close>

record world =
  self_address :: Address
  defaultAccount :: Address
  entropy :: nat
  sha256 :: "bytes \<Rightarrow> bytes"
  call_uint :: "string \<Rightarrow> abi_value list \<Rightarrow> error + int"
  call_bool :: "string \<Rightarrow> abi_value list \<Rightarrow> error + bool"
  transact_receipt :: "string \<Rightarrow> abi_value list \<Rightarrow> int \<Rightarrow> Receipt option"
  past_events :: "string \<Rightarrow> int \<Rightarrow> error + LogOrder list"
  eth_sign :: "Address \<Rightarrow> bytes \<Rightarrow> error + string"
  http_post :: "string \<Rightarrow> (string \<times> json) list \<Rightarrow> nat \<Rightarrow> error + response"

text \<open>
  The only handler this module registers by itself is the lambda of
  \<open>active_onchain_orders\<close>, \<open>lambda order: self._onchain_orders.add(order.to_order())\<close>.
\<close>

datatype handler = OnchainOrdersAdd

text \<open>
  \<open>self._onchain_orders\<close> is \<open>None\<close> or a Python set of on-chain orders. The set is a
  duplicate-free list; membership in it is decided by \<open>__eq__\<close>, which on on-chain
  orders is equality of the seven fields. The iteration order of a Python set is
  unspecified, so only membership in \<open>list(self._onchain_orders)\<close> is meaningful.
\<close>

record state =
  onchain_orders :: "OnChainOrder dlist option"
  order_handlers :: "handler list"
  trace :: "action list"

definition init_state :: state where
  "init_state = \<lparr>onchain_orders = None, order_handlers = [], trace = []\<rparr>"

definition log :: "action \<Rightarrow> state \<Rightarrow> state" where
  "log a st = st\<lparr>trace := trace st @ [a]\<rparr>"

definition contract_call_uint ::
  "world \<Rightarrow> state \<Rightarrow> string \<Rightarrow> abi_value list \<Rightarrow> (error + int) \<times> state" where
  "contract_call_uint w st name args = (call_uint w name args, log (Call name args) st)"

definition contract_call_bool ::
  "world \<Rightarrow> state \<Rightarrow> string \<Rightarrow> abi_value list \<Rightarrow> (error + bool) \<times> state" where
  "contract_call_bool w st name args = (call_bool w name args, log (Call name args) st)"

definition transact ::
  "world \<Rightarrow> state \<Rightarrow> string \<Rightarrow> abi_value list \<Rightarrow> int \<Rightarrow> Receipt option \<times> state" where
  "transact w st name args val =
     (transact_receipt w name args val, log (Transact name args val) st)"

definition on_order :: "state \<Rightarrow> handler \<Rightarrow> state" where
  "on_order st h = log (OnEvent ''Order'') (st\<lparr>order_handlers := order_handlers st @ [h]\<rparr>)"

definition past_order :: "world \<Rightarrow> state \<Rightarrow> int \<Rightarrow> (error + LogOrder list) \<times> state" where
  "past_order w st number_of_past_blocks =
     (past_events w ''Order'' number_of_past_blocks,
      log (PastEvents ''Order'' number_of_past_blocks) st)"

definition random_nonce :: "world \<Rightarrow> int" where
  "random_nonce w = 1 + int (entropy w mod (2 ^ 32 - 1))"

section \<open>The exchange client\<close>

subsection \<open>Reading an order argument\<close>

text \<open>
  \<open>isinstance(x, Order)\<close>, \<open>isinstance(x, Wad)\<close>, \<open>isinstance(x, Address)\<close>.
\<close>

fun isinstance_Order :: "pyval \<Rightarrow> bool" where
  "isinstance_Order (POnChainOrder x) = True"
| "isinstance_Order (POffChainOrder x) = True"
| "isinstance_Order other = False"

fun isinstance_Wad :: "pyval \<Rightarrow> bool" where
  "isinstance_Wad (PWad x) = True"
| "isinstance_Wad other = False"

fun isinstance_Address :: "pyval \<Rightarrow> bool" where
  "isinstance_Address (PAddress x) = True"
| "isinstance_Address other = False"

text \<open>
  The attribute reads \<open>order.token_get.address\<close>, \<open>order.amount_get.value\<close>,
  \<open>order.token_give.address\<close>, \<open>order.amount_give.value\<close>, \<open>order.expires\<close>,
  \<open>order.nonce\<close>, \<open>order.user.address\<close> of the contract methods: they succeed on
  every object that has the attributes, whatever its class, and raise
  \<open>AttributeError\<close> (here \<open>None\<close>) on the others.
\<close>

fun order_fields :: "pyval \<Rightarrow> (Address \<times> Wad \<times> Address \<times> Wad \<times> int \<times> int \<times> Address) option" where
  "order_fields (POnChainOrder x) =
     Some (Order.token_get x, Order.amount_get x, Order.token_give x, Order.amount_give x,
           Order.expires x, OnChainOrder.nonce x, OnChainOrder.user x)"
| "order_fields (POffChainOrder x) =
     Some (Order.token_get x, Order.amount_get x, Order.token_give x, Order.amount_give x,
           Order.expires x, OffChainOrder.nonce x, OffChainOrder.user x)"
| "order_fields (PLogOrder x) =
     Some (LogOrder.token_get x, LogOrder.amount_get x, LogOrder.token_give x,
           LogOrder.amount_give x, LogOrder.expires x, LogOrder.nonce x, LogOrder.user x)"
| "order_fields other = None"

text \<open>
  \<open>order.v if hasattr(order, 'v') else 0\<close>,
  \<open>order.r if hasattr(order, 'r') else bytes()\<close>,
  \<open>order.s if hasattr(order, 's') else bytes()\<close>.
\<close>

fun signature_args :: "pyval \<Rightarrow> abi_value list" where
  "signature_args (POffChainOrder x) = [AbiUint (v x), AbiBytes (r x), AbiBytes (s x)]"
| "signature_args other = [AbiUint 0, AbiBytes [], AbiBytes []]"

subsection \<open>Deposits, withdrawals and balances\<close>

definition ETH_TOKEN :: Address where
  "ETH_TOKEN = Address 0"

definition deposit :: "world \<Rightarrow> state \<Rightarrow> pyval \<Rightarrow> (error + Receipt option) \<times> state" where
  "deposit w st amount =
     (case amount of
        PWad a \<Rightarrow>
          (let (res, st1) = transact w st ''deposit'' [] (wad_value a) in (Inr res, st1))
      | _ \<Rightarrow> (Inl AssertionError, st))"

definition withdraw :: "world \<Rightarrow> state \<Rightarrow> pyval \<Rightarrow> (error + Receipt option) \<times> state" where
  "withdraw w st amount =
     (case amount of
        PWad a \<Rightarrow>
          (let (res, st1) = transact w st ''withdraw'' [AbiUint (wad_value a)] 0
           in (Inr res, st1))
      | _ \<Rightarrow> (Inl AssertionError, st))"

definition balance_of :: "world \<Rightarrow> state \<Rightarrow> pyval \<Rightarrow> (error + Wad) \<times> state" where
  "balance_of w st usr =
     (case usr of
        PAddress u \<Rightarrow>
          (case contract_call_uint w st ''balanceOf'' [AbiAddress ETH_TOKEN, AbiAddress u] of
             (Inl e, st1) \<Rightarrow> (Inl e, st1)
           | (Inr x, st1) \<Rightarrow> (Inr (Wad x), st1))
      | _ \<Rightarrow> (Inl AssertionError, st))"

definition deposit_token ::
  "world \<Rightarrow> state \<Rightarrow> pyval \<Rightarrow> pyval \<Rightarrow> (error + Receipt option) \<times> state" where
  "deposit_token w st token amount =
     (case token of
        PAddress t \<Rightarrow>
          (case amount of
             PWad a \<Rightarrow>
               (let (res, st1) =
                      transact w st ''depositToken'' [AbiAddress t, AbiUint (wad_value a)] 0
                in (Inr res, st1))
           | _ \<Rightarrow> (Inl AssertionError, st))
      | _ \<Rightarrow> (Inl AssertionError, st))"

definition withdraw_token ::
  "world \<Rightarrow> state \<Rightarrow> pyval \<Rightarrow> pyval \<Rightarrow> (error + Receipt option) \<times> state" where
  "withdraw_token w st token amount =
     (case token of
        PAddress t \<Rightarrow>
          (case amount of
             PWad a \<Rightarrow>
               (let (res, st1) =
                      transact w st ''withdrawToken'' [AbiAddress t, AbiUint (wad_value a)] 0
                in (Inr res, st1))
           | _ \<Rightarrow> (Inl AssertionError, st))
      | _ \<Rightarrow> (Inl AssertionError, st))"

definition balance_of_token ::
  "world \<Rightarrow> state \<Rightarrow> pyval \<Rightarrow> pyval \<Rightarrow> (error + Wad) \<times> state" where
  "balance_of_token w st token usr =
     (case token of
        PAddress t \<Rightarrow>
          (case usr of
             PAddress u \<Rightarrow>
               (case contract_call_uint w st ''balanceOf'' [AbiAddress t, AbiAddress u] of
                  (Inl e, st1) \<Rightarrow> (Inl e, st1)
                | (Inr x, st1) \<Rightarrow> (Inr (Wad x), st1))
           | _ \<Rightarrow> (Inl AssertionError, st))
      | _ \<Rightarrow> (Inl AssertionError, st))"

subsection \<open>The operations that take an order\<close>

text \<open>
  \<open>amount_available\<close> and \<open>amount_filled\<close> have no \<open>isinstance\<close> assertion: the
  attribute reads are the only thing that can stop them before the call.
\<close>

definition amount_available :: "world \<Rightarrow> state \<Rightarrow> pyval \<Rightarrow> (error + Wad) \<times> state" where
  "amount_available w st order =
     (case order_fields order of
        None \<Rightarrow> (Inl AttributeError, st)
      | Some (tg, ag, tv, av, ex, n, u) \<Rightarrow>
          (case contract_call_uint w st ''availableVolume''
                  ([AbiAddress tg, AbiUint (wad_value ag), AbiAddress tv, AbiUint (wad_value av),
                    AbiUint ex, AbiUint n, AbiAddress u] @ signature_args order) of
             (Inl e, st1) \<Rightarrow> (Inl e, st1)
           | (Inr x, st1) \<Rightarrow> (Inr (Wad x), st1)))"

definition amount_filled :: "world \<Rightarrow> state \<Rightarrow> pyval \<Rightarrow> (error + Wad) \<times> state" where
  "amount_filled w st order =
     (case order_fields order of
        None \<Rightarrow> (Inl AttributeError, st)
      | Some (tg, ag, tv, av, ex, n, u) \<Rightarrow>
          (case contract_call_uint w st ''amountFilled''
                  ([AbiAddress tg, AbiUint (wad_value ag), AbiAddress tv, AbiUint (wad_value av),
                    AbiUint ex, AbiUint n, AbiAddress u] @ signature_args order) of
             (Inl e, st1) \<Rightarrow> (Inl e, st1)
           | (Inr x, st1) \<Rightarrow> (Inr (Wad x), st1)))"

text \<open>
  \<open>trade\<close>, \<open>can_trade\<close> and \<open>cancel_order\<close> assert the classes of their arguments
  first. After the assertions the attribute reads cannot fail; the last branch is there
  for totality.
\<close>

definition trade ::
  "world \<Rightarrow> state \<Rightarrow> pyval \<Rightarrow> pyval \<Rightarrow> (error + Receipt option) \<times> state" where
  "trade w st order amount =
     (if \<not> isinstance_Order order then (Inl AssertionError, st)
      else if \<not> isinstance_Wad amount then (Inl AssertionError, st)
      else
        (case (order_fields order, amount) of
           (Some (tg, ag, tv, av, ex, n, u), PWad a) \<Rightarrow>
             (let (res, st1) =
                    transact w st ''trade''
                      ([AbiAddress tg, AbiUint (wad_value ag), AbiAddress tv,
                        AbiUint (wad_value av), AbiUint ex, AbiUint n, AbiAddress u]
                       @ signature_args order @ [AbiUint (wad_value a)]) 0
              in (Inr res, st1))
         | _ \<Rightarrow> (Inl AttributeError, st)))"

definition can_trade ::
  "world \<Rightarrow> state \<Rightarrow> pyval \<Rightarrow> pyval \<Rightarrow> (error + bool) \<times> state" where
  "can_trade w st order amount =
     (if \<not> isinstance_Order order then (Inl AssertionError, st)
      else if \<not> isinstance_Wad amount then (Inl AssertionError, st)
      else
        (case (order_fields order, amount) of
           (Some (tg, ag, tv, av, ex, n, u), PWad a) \<Rightarrow>
             contract_call_bool w st ''testTrade''
               ([AbiAddress tg, AbiUint (wad_value ag), AbiAddress tv,
                 AbiUint (wad_value av), AbiUint ex, AbiUint n, AbiAddress u]
                @ signature_args order @ [AbiUint (wad_value a), AbiAddress (defaultAccount w)])
         | _ \<Rightarrow> (Inl AttributeError, st)))"

definition cancel_order ::
  "world \<Rightarrow> state \<Rightarrow> pyval \<Rightarrow> (error + Receipt option) \<times> state" where
  "cancel_order w st order =
     (if \<not> isinstance_Order order then (Inl AssertionError, st)
      else
        (case order_fields order of
           Some (tg, ag, tv, av, ex, n, u) \<Rightarrow>
             (let (res, st1) =
                    transact w st ''cancelOrder''
                      ([AbiAddress tg, AbiUint (wad_value ag), AbiAddress tv,
                        AbiUint (wad_value av), AbiUint ex, AbiUint n]
                       @ signature_args order) 0
              in (Inr res, st1))
         | None \<Rightarrow> (Inl AttributeError, st)))"

subsection \<open>The tracker of on-chain orders\<close>

text \<open>
  \<open>self._onchain_orders.add(x)\<close> and \<open>self._onchain_orders.remove(x)\<close>. On \<open>None\<close>
  the attribute lookup raises; \<open>set.remove\<close> raises \<open>KeyError\<close> on a missing element.
\<close>

definition onchain_orders_add :: "OnChainOrder \<Rightarrow> state \<Rightarrow> error + state" where
  "onchain_orders_add x st =
     (case onchain_orders st of
        None \<Rightarrow> Inl AttributeError
      | Some d \<Rightarrow> Inr (st\<lparr>onchain_orders := Some (Dlist.insert x d)\<rparr>))"

definition onchain_orders_remove :: "OnChainOrder \<Rightarrow> state \<Rightarrow> error + state" where
  "onchain_orders_remove x st =
     (case onchain_orders st of
        None \<Rightarrow> Inl AttributeError
      | Some d \<Rightarrow>
          if Dlist.member d x then Inr (st\<lparr>onchain_orders := Some (Dlist.remove x d)\<rparr>)
          else Inl KeyError)"

text \<open>
  The delivery of one \<open>Order\<close> event by the chain client: every registered handler is
  invoked on the decoded log.
\<close>

fun run_handler :: "handler \<Rightarrow> LogOrder \<Rightarrow> state \<Rightarrow> error + state" where
  "run_handler OnchainOrdersAdd ev st = onchain_orders_add (to_order ev) st"

primrec run_handlers :: "handler list \<Rightarrow> LogOrder \<Rightarrow> state \<Rightarrow> error + state" where
  "run_handlers [] ev st = Inr st"
| "run_handlers (h # hs) ev st =
     (case run_handler h ev st of
        Inl e \<Rightarrow> Inl e
      | Inr st1 \<Rightarrow> run_handlers hs ev st1)"

definition deliver_order_event :: "state \<Rightarrow> LogOrder \<Rightarrow> error + state" where
  "deliver_order_event st ev = run_handlers (order_handlers st) ev st"

text \<open>
  First block of \<open>active_onchain_orders\<close>: on \<open>None\<close> the set is created, the handler
  registered and the past events of the last 1000000 blocks added one by one.
\<close>

primrec add_old_orders :: "LogOrder list \<Rightarrow> state \<Rightarrow> error + state" where
  "add_old_orders [] st = Inr st"
| "add_old_orders (old_order # rest) st =
     (case onchain_orders_add (to_order old_order) st of
        Inl e \<Rightarrow> Inl e
      | Inr st1 \<Rightarrow> add_old_orders rest st1)"

definition discover_orders :: "world \<Rightarrow> state \<Rightarrow> (error + unit) \<times> state" where
  "discover_orders w st =
     (case onchain_orders st of
        Some d \<Rightarrow> (Inr (), st)
      | None \<Rightarrow>
          (let st1 = st\<lparr>onchain_orders := Some Dlist.empty\<rparr>;
               st2 = on_order st1 OnchainOrdersAdd
           in case past_order w st2 1000000 of
                (Inl e, st3) \<Rightarrow> (Inl e, st3)
              | (Inr old_orders, st3) \<Rightarrow>
                  (case add_old_orders old_orders st3 of
                     Inl e \<Rightarrow> (Inl e, st3)
                   | Inr st4 \<Rightarrow> (Inr (), st4))))"

text \<open>
  Second block: for every order of the snapshot \<open>list(self._onchain_orders)\<close>, ask the
  contract for the filled amount and remove the order when it equals \<open>amount_get\<close>
  (\<open>Wad.__eq__\<close>, equality of the integers).
\<close>

primrec remove_filled :: "world \<Rightarrow> OnChainOrder list \<Rightarrow> state \<Rightarrow> (error + unit) \<times> state" where
  "remove_filled w [] st = (Inr (), st)"
| "remove_filled w (order # rest) st =
     (case amount_filled w st (POnChainOrder order) of
        (Inl e, st1) \<Rightarrow> (Inl e, st1)
      | (Inr filled, st1) \<Rightarrow>
          if filled = Order.amount_get order
          then (case onchain_orders_remove order st1 of
                  Inl e \<Rightarrow> (Inl e, st1)
                | Inr st2 \<Rightarrow> remove_filled w rest st2)
          else remove_filled w rest st1)"

definition active_onchain_orders :: "world \<Rightarrow> state \<Rightarrow> (error + OnChainOrder list) \<times> state" where
  "active_onchain_orders w st =
     (case discover_orders w st of
        (Inl e, st1) \<Rightarrow> (Inl e, st1)
      | (Inr u, st1) \<Rightarrow>
          (case onchain_orders st1 of
             None \<Rightarrow> (Inl TypeError, st1)
           | Some d \<Rightarrow>
               (case remove_filled w (list_of_dlist d) st1 of
                  (Inl e, st2) \<Rightarrow> (Inl e, st2)
                | (Inr u2, st2) \<Rightarrow>
                    (case onchain_orders st2 of
                       None \<Rightarrow> (Inl TypeError, st2)
                     | Some d2 \<Rightarrow> (Inr (list_of_dlist d2), st2)))))"

subsection \<open>Placing orders\<close>

text \<open>
  \<open>place_order_onchain\<close>, on arguments of the annotated types (the method asserts
  nothing about them).
\<close>

definition place_order_onchain ::
  "world \<Rightarrow> state \<Rightarrow> Address \<Rightarrow> Wad \<Rightarrow> Address \<Rightarrow> Wad \<Rightarrow> int \<Rightarrow> Receipt option \<times> state" where
  "place_order_onchain w st tg ag tv av ex =
     (let n = random_nonce w;
          (result, st1) =
             transact w st ''order''
               [AbiAddress tg, AbiUint (wad_value ag), AbiAddress tv, AbiUint (wad_value av),
                AbiUint ex, AbiUint n] 0
      in if result \<noteq> None \<and> onchain_orders st1 \<noteq> None
         then (let onchain_order = OnChainOrder.make tg ag tv av ex n (defaultAccount w)
               in case onchain_orders_add onchain_order st1 of
                    Inr st2 \<Rightarrow> (result, st2)
                  | Inl e \<Rightarrow> (result, st1))
         else (result, st1))"

text \<open>\<open>OffChainOrder._to_json\<close>, as the object handed to \<open>json.dumps\<close>.\<close>

definition to_json :: "OffChainOrder \<Rightarrow> Address \<Rightarrow> (string \<times> json) list" where
  "to_json self etherdelta_contract_address =
     [(''contractAddr'', JAddress etherdelta_contract_address),
      (''tokenGet'', JAddress (Order.token_get self)),
      (''amountGet'', JInt (wad_value (Order.amount_get self))),
      (''tokenGive'', JAddress (Order.token_give self)),
      (''amountGive'', JInt (wad_value (Order.amount_give self))),
      (''expires'', JInt (Order.expires self)),
      (''nonce'', JInt (OffChainOrder.nonce self)),
      (''v'', JInt (v self)),
      (''r'', JStr (bytes_to_0xhexstring (r self))),
      (''s'', JStr (bytes_to_0xhexstring (s self))),
      (''user'', JAddress (OffChainOrder.user self))]"

text \<open>
  \<open>place_order_offchain\<close>, on arguments of the annotated types. In the order of the
  source: nonce, message and digest, signing request, decomposition of the signature
  text, construction of the order, relay POST with a timeout of 15 seconds, and the test
  for the text \<open>"success"\<close> (quotation marks included) in the body of the response.
  Nothing in the method catches an exception.
\<close>

definition success_marker :: string where
  "success_marker = [CHR 0x22] @ ''success'' @ [CHR 0x22]"

definition relay_url :: string where
  "relay_url = ''https://cache2.etherdelta.com/message''"

definition place_order_offchain ::
  "world \<Rightarrow> state \<Rightarrow> Address \<Rightarrow> Wad \<Rightarrow> Address \<Rightarrow> Wad \<Rightarrow> int
     \<Rightarrow> (error + OffChainOrder option) \<times> state" where
  "place_order_offchain w st tg ag tv av ex =
     (let n = random_nonce w in
      case order_message (self_address w) tg ag tv av ex n of
        Inl e \<Rightarrow> (Inl e, st)
      | Inr msg \<Rightarrow>
     (let order_hash = sha256 w msg;
          st1 = log (EthSign (defaultAccount w) order_hash) st
      in case eth_sign w (defaultAccount w) order_hash of
        Inl e \<Rightarrow> (Inl e, st1)
      | Inr sig_text \<Rightarrow>
     (let signed_hash = drop 2 sig_text in
      case fromhex (take 64 signed_hash) of
        Inl e \<Rightarrow> (Inl e, st1)
      | Inr sig_r \<Rightarrow>
     (case fromhex (take 64 (drop 64 signed_hash)) of
        Inl e \<Rightarrow> (Inl e, st1)
      | Inr sig_s \<Rightarrow>
     (case fromhex (take 2 (drop 128 signed_hash)) of
        Inl e \<Rightarrow> (Inl e, st1)
      | Inr vb \<Rightarrow>
     (case ord vb of
        Inl e \<Rightarrow> (Inl e, st1)
      | Inr sig_v \<Rightarrow>
     (let off_chain_order =
            OffChainOrder.make tg ag tv av ex n (defaultAccount w) sig_v sig_r sig_s;
          message = to_json off_chain_order (self_address w);
          st2 = log (Post relay_url message 15) st1
      in case http_post w relay_url message 15 of
        Inl e \<Rightarrow> (Inl e, st2)
      | Inr res \<Rightarrow>
          (Inr (if contains success_marker (response_text res)
                then Some off_chain_order else None), st2))))))))"

section \<open>Vocabulary of the specification\<close>

text \<open>The values the \<open>uint256\<close> encoder accepts.\<close>

definition uint256_range :: "int \<Rightarrow> bool" where
  "uint256_range x = (0 \<le> x \<and> x \<le> 2 ^ 256 - 1)"

text \<open>
  The layout of the canonical message in the words of the spec: 188 bytes; the contract
  address in bytes 0..19 and \<open>token_get\<close> in bytes 20..39, each the low 20 bytes of the
  32-byte ABI word of the address; \<open>amount_get\<close> in bytes 40..71 as a big-endian
  unsigned integer; \<open>token_give\<close> in bytes 72..91; \<open>amount_give\<close> in bytes 92..123;
  \<open>expires\<close> in bytes 124..155; \<open>nonce\<close> in bytes 156..187.
\<close>

definition canonical_layout ::
  "bytes \<Rightarrow> Address \<Rightarrow> Address \<Rightarrow> Wad \<Rightarrow> Address \<Rightarrow> Wad \<Rightarrow> int \<Rightarrow> int \<Rightarrow> bool" where
  "canonical_layout m contract tg ag tv av ex n =
     (length m = 188 \<and>
      bytes_slice m 0 20 = drop 12 (abi_encode_address contract) \<and>
      from_bytes_big (bytes_slice m 0 20) = unat (address contract) \<and>
      bytes_slice m 20 20 = drop 12 (abi_encode_address tg) \<and>
      from_bytes_big (bytes_slice m 20 20) = unat (address tg) \<and>
      int (from_bytes_big (bytes_slice m 40 32)) = wad_value ag \<and>
      bytes_slice m 72 20 = drop 12 (abi_encode_address tv) \<and>
      from_bytes_big (bytes_slice m 72 20) = unat (address tv) \<and>
      int (from_bytes_big (bytes_slice m 92 32)) = wad_value av \<and>
      int (from_bytes_big (bytes_slice m 124 32)) = ex \<and>
      int (from_bytes_big (bytes_slice m 156 32)) = n)"

text \<open>The elements of the tracked set (none before the first query).\<close>

definition tracked :: "state \<Rightarrow> OnChainOrder set" where
  "tracked st = (case onchain_orders st of None \<Rightarrow> {} | Some d \<Rightarrow> set (list_of_dlist d))"

section \<open>Concrete collaborators for the worked instances\<close>

text \<open>
  A signer that answers a fixed 65-byte signature (\<open>r\<close> thirty-two bytes \<open>0x11\<close>,
  \<open>s\<close> thirty-two bytes \<open>0x22\<close>, \<open>v = 27\<close>), a contract that reports 100 for every
  amount, a chain without past events, a relay that accepts, and a stand-in digest.
\<close>

definition example_signature :: string where
  "example_signature =
     ''0x'' @
     ''1111111111111111111111111111111111111111111111111111111111111111'' @
     ''2222222222222222222222222222222222222222222222222222222222222222'' @
     ''1b''"

definition example_world :: world where
  "example_world =
     \<lparr>self_address = Address 0x8d12a197cb00d4747a1fe03395095ce2a5cc6819,
      defaultAccount = Address 0xabc,
      entropy = 41,
      sha256 = (\<lambda>m. to_bytes_big 32 (length m)),
      call_uint = (\<lambda>name args. Inr 100),
      call_bool = (\<lambda>name args. Inr True),
      transact_receipt = (\<lambda>name args val. Some (Receipt [1])),
      past_events = (\<lambda>name number_of_past_blocks. Inr []),
      eth_sign = (\<lambda>account data_hash. Inr example_signature),
      http_post = (\<lambda>url message timeout.
         Inr \<lparr>status_code = 200, response_text = ''{'' @ success_marker @ '':1}''\<rparr>)\<rparr>"

definition example_hasher :: hasher where
  "example_hasher =
     \<lparr>hash_Address = (\<lambda>a. uint (address a)),
      hash_Wad = wad_value,
      hash_int = (\<lambda>i. i),
      hash_bytes = (\<lambda>b. int (length b)),
      hash_tuple = sum_list\<rparr>"

definition example_order_filled :: OnChainOrder where
  "example_order_filled =
     OnChainOrder.make (Address 2) (Wad 100) (Address 3) (Wad 50) 10000000 7 (Address 0xabc)"

definition example_order_open :: OnChainOrder where
  "example_order_open =
     OnChainOrder.make (Address 2) (Wad 250) (Address 3) (Wad 50) 10000000 8 (Address 0xabc)"

definition tracking_state :: state where
  "tracking_state =
     \<lparr>onchain_orders = Some (Dlist.insert example_order_filled (Dlist.insert example_order_open Dlist.empty)),
      order_handlers = [OnchainOrdersAdd],
      trace = []\<rparr>"

text \<open>
  Variations of the collaborators: a contract on which nothing has been filled, a chain
  client whose transactions fail, a chain whose only \<open>Order\<close> event lies between one
  and two million blocks back, a chain with two recent \<open>Order\<close> events (one order open, one reported filled), and relays that
  time out, answer an error status with an accepting body, or reject.
\<close>

definition fresh_world :: world where
  "fresh_world = example_world\<lparr>call_uint := (\<lambda>name args. Inr 0)\<rparr>"

definition failing_world :: world where
  "failing_world = example_world\<lparr>transact_receipt := (\<lambda>name args val. None)\<rparr>"

definition empty_tracking_state :: state where
  "empty_tracking_state =
     \<lparr>onchain_orders = Some Dlist.empty, order_handlers = [OnchainOrdersAdd], trace = []\<rparr>"

definition example_log :: LogOrder where
  "example_log =
     LogOrder.make (Address 2) (Wad 250) (Address 3) (Wad 50) 10000000 8 (Address 0xabc)"

definition old_event_world :: world where
  "old_event_world =
     example_world\<lparr>past_events :=
       (\<lambda>name number_of_past_blocks. if 2000000 \<le> number_of_past_blocks then Inr [example_log] else Inr [])\<rparr>"

definition example_log_filled :: LogOrder where
  "example_log_filled =
     LogOrder.make (Address 2) (Wad 100) (Address 3) (Wad 50) 10000000 7 (Address 0xabc)"

definition history_world :: world where
  "history_world =
     example_world\<lparr>past_events :=
       (\<lambda>name number_of_past_blocks. Inr [example_log, example_log_filled])\<rparr>"

definition timeout_world :: world where
  "timeout_world = example_world\<lparr>http_post := (\<lambda>url message timeout. Inl Timeout)\<rparr>"

definition server_error_world :: world where
  "server_error_world =
     example_world\<lparr>http_post := (\<lambda>url message timeout.
        Inr \<lparr>status_code = 500, response_text = ''{'' @ success_marker @ '':1}''\<rparr>)\<rparr>"

definition rejecting_world :: world where
  "rejecting_world =
     example_world\<lparr>http_post := (\<lambda>url message timeout.
        Inr \<lparr>status_code = 400, response_text = ''{error}''\<rparr>)\<rparr>"

definition example_offchain_order :: OffChainOrder where
  "example_offchain_order =
     OffChainOrder.make (Address 2) (Wad 100) (Address 3) (Wad 50) 10000000 42 (Address 0xabc)
       27 (replicate 32 0x11) (replicate 32 0x22)"

section \<open>Properties of the order model\<close>

lemma OnChainOrder_eq_iff: "OnChainOrder_eq x (POnChainOrder y) \<longleftrightarrow> x = y"
  by (cases x, cases y) auto

lemma OffChainOrder_eq_iff: "OffChainOrder_eq x (POffChainOrder y) \<longleftrightarrow> x = y"
  by (cases x, cases y) auto

text \<open>
  Claim C6. Two on-chain orders constructed from the same seven field values are equal
  under \<open>__eq__\<close> and have the same \<open>__hash__\<close>; \<open>__eq__\<close> holds exactly when all seven
  fields agree, so a difference in any one field breaks it.
\<close>

theorem OnChainOrder_eq_hash:
  "(OnChainOrder_eq (OnChainOrder.make tg ag tv av ex n u)
       (POnChainOrder (OnChainOrder.make tg' ag' tv' av' ex' n' u'))
     \<longleftrightarrow> tg = tg' \<and> ag = ag' \<and> tv = tv' \<and> av = av' \<and> ex = ex' \<and> n = n' \<and> u = u')
   \<and> (tg = tg' \<and> ag = ag' \<and> tv = tv' \<and> av = av' \<and> ex = ex' \<and> n = n' \<and> u = u' \<longrightarrow>
        OnChainOrder_hash H (OnChainOrder.make tg ag tv av ex n u)
          = OnChainOrder_hash H (OnChainOrder.make tg' ag' tv' av' ex' n' u'))"
  by (auto simp: OnChainOrder.defs Order.defs)

theorem OnChainOrder_eq_hash_witness:
  "OnChainOrder_eq (OnChainOrder.make (Address 1) (Wad 100) (Address 2) (Wad 50) 10000000 7 (Address 3))
       (POnChainOrder (OnChainOrder.make (Address 1) (Wad 100) (Address 2) (Wad 50) 10000000 7 (Address 3)))
   \<and> OnChainOrder_hash example_hasher (OnChainOrder.make (Address 1) (Wad 100) (Address 2) (Wad 50) 10000000 7 (Address 3))
       = OnChainOrder_hash example_hasher (OnChainOrder.make (Address 1) (Wad 100) (Address 2) (Wad 50) 10000000 7 (Address 3))
   \<and> \<not> OnChainOrder_eq (OnChainOrder.make (Address 1) (Wad 100) (Address 2) (Wad 50) 10000000 7 (Address 3))
       (POnChainOrder (OnChainOrder.make (Address 1) (Wad 100) (Address 2) (Wad 50) 10000000 8 (Address 3)))"
  using OnChainOrder_eq_hash [of "Address 1" "Wad 100" "Address 2" "Wad 50" 10000000 7 "Address 3"
      "Address 1" "Wad 100" "Address 2" "Wad 50" 10000000 7 "Address 3" example_hasher]
    OnChainOrder_eq_hash [of "Address 1" "Wad 100" "Address 2" "Wad 50" 10000000 7 "Address 3"
      "Address 1" "Wad 100" "Address 2" "Wad 50" 10000000 8 "Address 3" example_hasher]
  by simp

text \<open>
  Claim C9. With the order on the left of \<open>==\<close>, equality across the two variants is
  false in both directions whatever the fields hold, and comparing an order of either
  variant with a value of any other class returns \<open>False\<close>; \<open>__eq__\<close> has no raising
  branch.
\<close>

theorem cross_variant_eq_False:
  "\<not> OnChainOrder_eq x (POffChainOrder y) \<and> \<not> OffChainOrder_eq y (POnChainOrder x)
   \<and> ((\<forall>z. other \<noteq> POnChainOrder z) \<longrightarrow> \<not> OnChainOrder_eq x other)
   \<and> ((\<forall>z. other \<noteq> POffChainOrder z) \<longrightarrow> \<not> OffChainOrder_eq y other)"
  by (cases other) auto

theorem cross_variant_eq_False_witness:
  "\<not> OnChainOrder_eq (OnChainOrder.make (Address 1) (Wad 100) (Address 2) (Wad 50) 10000000 7 (Address 3))
       (POffChainOrder (OffChainOrder.make (Address 1) (Wad 100) (Address 2) (Wad 50) 10000000 7 (Address 3) 27 [] []))
   \<and> \<not> OffChainOrder_eq (OffChainOrder.make (Address 1) (Wad 100) (Address 2) (Wad 50) 10000000 7 (Address 3) 27 [] [])
       (POnChainOrder (OnChainOrder.make (Address 1) (Wad 100) (Address 2) (Wad 50) 10000000 7 (Address 3)))
   \<and> \<not> OnChainOrder_eq (OnChainOrder.make (Address 1) (Wad 100) (Address 2) (Wad 50) 10000000 7 (Address 3)) PNone
   \<and> \<not> OffChainOrder_eq (OffChainOrder.make (Address 1) (Wad 100) (Address 2) (Wad 50) 10000000 7 (Address 3) 27 [] []) (PInt 5)"
  using cross_variant_eq_False [of
      "OnChainOrder.make (Address 1) (Wad 100) (Address 2) (Wad 50) 10000000 7 (Address 3)"
      "OffChainOrder.make (Address 1) (Wad 100) (Address 2) (Wad 50) 10000000 7 (Address 3) 27 [] []"
      PNone]
    cross_variant_eq_False [of
      "OnChainOrder.make (Address 1) (Wad 100) (Address 2) (Wad 50) 10000000 7 (Address 3)"
      "OffChainOrder.make (Address 1) (Wad 100) (Address 2) (Wad 50) 10000000 7 (Address 3) 27 [] []"
      "PInt 5"]
  by simp

section \<open>The signing payload\<close>

lemma length_to_bytes_big: "length (to_bytes_big k x) = k"
  by (induction k arbitrary: x) auto

lemma from_bytes_big_snoc: "from_bytes_big (bs @ [b]) = from_bytes_big bs * 256 + unat b"
  by (simp add: from_bytes_big_def)

lemma unat_byte_of_mod: "unat (of_nat (x mod 256) :: byte) = x mod 256"
  by (simp add: unat_of_nat)

lemma from_to_bytes_big: "from_bytes_big (to_bytes_big k x) = x mod 256 ^ k"
proof (induction k arbitrary: x)
  case 0
  show ?case by (simp add: from_bytes_big_def)
next
  case (Suc k)
  have "from_bytes_big (to_bytes_big (Suc k) x) = (x div 256) mod 256 ^ k * 256 + x mod 256"
    by (simp add: from_bytes_big_snoc Suc unat_byte_of_mod)
  also have "\<dots> = x mod 256 ^ Suc k"
    by (simp add: mod_mult2_eq add.commute mult.commute)
  finally show ?case .
qed

lemma to_bytes_big_zero: "to_bytes_big j 0 = replicate j 0"
  by (induction j) (auto simp: replicate_append_same)

lemma to_bytes_big_pad: "x < 256 ^ k \<Longrightarrow> to_bytes_big (j + k) x = replicate j 0 @ to_bytes_big k x"
proof (induction k arbitrary: x)
  case 0
  then show ?case by (simp add: to_bytes_big_zero)
next
  case (Suc k)
  from Suc.prems have "x div 256 < 256 ^ k"
    by (simp add: less_mult_imp_div_less mult.commute)
  then show ?case using Suc.IH [of "x div 256"] by simp
qed

lemma unat_address_bound: "unat (a :: 160 word) < 256 ^ 20"
  using unsigned_less [of a, where 'a = nat] by simp

lemma abi_encode_address_pad: "abi_encode_address a = replicate 12 0 @ to_bytes_big 20 (unat (address a))"
  unfolding abi_encode_address_def
  using to_bytes_big_pad [of "unat (address a)" 20 12] unat_address_bound [of "address a"] by simp

lemma encode_address_eq: "encode_address a = to_bytes_big 20 (unat (address a))"
  by (simp add: encode_address_def abi_encode_address_pad)

lemma length_encode_address: "length (encode_address a) = 20"
  by (simp add: encode_address_eq length_to_bytes_big)

lemma from_encode_address: "from_bytes_big (encode_address a) = unat (address a)"
  using unat_address_bound [of "address a"] by (simp add: encode_address_eq from_to_bytes_big)

lemma encode_uint256_Inr:
  "0 \<le> x \<Longrightarrow> x < 2 ^ 256 \<Longrightarrow> encode_uint256 x = Inr (to_bytes_big 32 (nat x))"
  by (simp add: encode_uint256_def abi_encode_uint256_def)

lemma encode_uint256_Inl:
  "x < 0 \<or> 2 ^ 256 \<le> x \<Longrightarrow> encode_uint256 x = Inl EncodingError"
  by (auto simp: encode_uint256_def abi_encode_uint256_def)

lemma from_uint256: "0 \<le> x \<Longrightarrow> x < 2 ^ 256 \<Longrightarrow> int (from_bytes_big (to_bytes_big 32 (nat x))) = x"
proof -
  assume a: "0 \<le> x" "x < 2 ^ 256"
  then have "nat x < 2 ^ 256" by (simp add: nat_less_iff)
  then have "nat x mod 256 ^ 32 = nat x" by simp
  with a show ?thesis by (simp add: from_to_bytes_big)
qed

lemma order_message_Inr:
  assumes "uint256_range (wad_value ag)" "uint256_range (wad_value av)" "uint256_range ex" "uint256_range n"
  shows "order_message c tg ag tv av ex n =
     Inr (encode_address c @ encode_address tg @ to_bytes_big 32 (nat (wad_value ag)) @
          encode_address tv @ to_bytes_big 32 (nat (wad_value av)) @
          to_bytes_big 32 (nat ex) @ to_bytes_big 32 (nat n))"
  using assms by (simp add: order_message_def encode_uint256_Inr uint256_range_def)

lemma order_message_Inl:
  assumes "\<not> (uint256_range (wad_value ag) \<and> uint256_range (wad_value av) \<and> uint256_range ex \<and> uint256_range n)"
  shows "order_message c tg ag tv av ex n = Inl EncodingError"
  using assms
  by (auto simp: order_message_def encode_uint256_def abi_encode_uint256_def uint256_range_def split: sum.splits)

lemma layout:
  assumes la: "length a1 = 20" and lb: "length a2 = 20" and lc: "length u1 = 32"
    and ld: "length a3 = 20" and le: "length u2 = 32" and lf: "length u3 = 32" and lg: "length u4 = 32"
  shows "length (a1 @ a2 @ u1 @ a3 @ u2 @ u3 @ u4) = 188"
    and "bytes_slice (a1 @ a2 @ u1 @ a3 @ u2 @ u3 @ u4) 0 20 = a1"
    and "bytes_slice (a1 @ a2 @ u1 @ a3 @ u2 @ u3 @ u4) 20 20 = a2"
    and "bytes_slice (a1 @ a2 @ u1 @ a3 @ u2 @ u3 @ u4) 40 32 = u1"
    and "bytes_slice (a1 @ a2 @ u1 @ a3 @ u2 @ u3 @ u4) 72 20 = a3"
    and "bytes_slice (a1 @ a2 @ u1 @ a3 @ u2 @ u3 @ u4) 92 32 = u2"
    and "bytes_slice (a1 @ a2 @ u1 @ a3 @ u2 @ u3 @ u4) 124 32 = u3"
    and "bytes_slice (a1 @ a2 @ u1 @ a3 @ u2 @ u3 @ u4) 156 32 = u4"
  using assms by (simp_all add: bytes_slice_def)

lemma offchain_trace:
  assumes "order_message (self_address w) tg ag tv av ex (random_nonce w) = Inr m"
  shows "\<exists>rest. trace (snd (place_order_offchain w st tg ag tv av ex))
            = trace st @ EthSign (defaultAccount w) (sha256 w m) # rest"
  using assms
  by (auto simp: place_order_offchain_def Let_def log_def split: sum.splits)

lemma uint256_range_nonce: "uint256_range (random_nonce w)"
proof -
  have "entropy w mod 4294967295 < 4294967295" by simp
  then have "int (entropy w mod 4294967295) < 4294967295" by linarith
  then show ?thesis by (simp add: uint256_range_def random_nonce_def)
qed

lemma random_nonce_range: "1 \<le> random_nonce w \<and> random_nonce w \<le> 2 ^ 32 - 1"
proof -
  have "entropy w mod 4294967295 < 4294967295" by simp
  then have "int (entropy w mod 4294967295) < 4294967295" by linarith
  then show ?thesis by (simp add: random_nonce_def)
qed

lemma canonical_layout_encodings:
  assumes "uint256_range (wad_value ag)" "uint256_range (wad_value av)" "uint256_range ex" "uint256_range n"
  shows "canonical_layout
           (encode_address c @ encode_address tg @ to_bytes_big 32 (nat (wad_value ag)) @
            encode_address tv @ to_bytes_big 32 (nat (wad_value av)) @
            to_bytes_big 32 (nat ex) @ to_bytes_big 32 (nat n)) c tg ag tv av ex n"
proof -
  note L = layout [of "encode_address c" "encode_address tg" "to_bytes_big 32 (nat (wad_value ag))"
      "encode_address tv" "to_bytes_big 32 (nat (wad_value av))" "to_bytes_big 32 (nat ex)"
      "to_bytes_big 32 (nat n)", OF length_encode_address length_encode_address length_to_bytes_big
      length_encode_address length_to_bytes_big length_to_bytes_big length_to_bytes_big]
  have r: "0 \<le> wad_value ag" "wad_value ag < 2 ^ 256" "0 \<le> wad_value av" "wad_value av < 2 ^ 256"
    "0 \<le> ex" "ex < 2 ^ 256" "0 \<le> n" "n < 2 ^ 256"
    using assms by (simp_all add: uint256_range_def)
  show ?thesis
    unfolding canonical_layout_def L
    using r by (simp add: from_encode_address from_uint256 encode_address_def [symmetric])
qed

text \<open>
  Claim C1. For order fields in the range of \<open>uint256\<close>, the argument of the hash in
  \<open>place_order_offchain\<close> is a message with the canonical layout (contract address,
  \<open>token_get\<close>, \<open>amount_get\<close>, \<open>token_give\<close>, \<open>amount_give\<close>, \<open>expires\<close>,
  \<open>nonce\<close>; addresses as the low 20 bytes of their ABI word, integers as 32 big-endian
  bytes), and the first request of the operation asks the signer to sign the SHA-256
  digest of that message. The message is the value of the function \<open>order_message\<close> at
  the contract address, the order fields and the nonce, and of nothing else. Outside the
  range the encoder raises and no request is made.
\<close>

theorem canonical_signing_message:
  "(uint256_range (wad_value ag) \<and> uint256_range (wad_value av) \<and> uint256_range ex \<longrightarrow>
      (\<exists>m rest.
         order_message (self_address w) tg ag tv av ex (random_nonce w) = Inr m \<and>
         canonical_layout m (self_address w) tg ag tv av ex (random_nonce w) \<and>
         trace (snd (place_order_offchain w st tg ag tv av ex))
           = trace st @ EthSign (defaultAccount w) (sha256 w m) # rest))
   \<and> (\<not> (uint256_range (wad_value ag) \<and> uint256_range (wad_value av) \<and> uint256_range ex) \<longrightarrow>
        place_order_offchain w st tg ag tv av ex = (Inl EncodingError, st))"
proof (intro conjI impI)
  assume a: "uint256_range (wad_value ag) \<and> uint256_range (wad_value av) \<and> uint256_range ex"
  let ?m = "encode_address (self_address w) @ encode_address tg @ to_bytes_big 32 (nat (wad_value ag)) @
            encode_address tv @ to_bytes_big 32 (nat (wad_value av)) @
            to_bytes_big 32 (nat ex) @ to_bytes_big 32 (nat (random_nonce w))"
  have m: "order_message (self_address w) tg ag tv av ex (random_nonce w) = Inr ?m"
    using a by (simp add: order_message_Inr uint256_range_nonce)
  have c: "canonical_layout ?m (self_address w) tg ag tv av ex (random_nonce w)"
    using a by (simp add: canonical_layout_encodings uint256_range_nonce)
  from offchain_trace [OF m] m c
  show "\<exists>m rest.
         order_message (self_address w) tg ag tv av ex (random_nonce w) = Inr m \<and>
         canonical_layout m (self_address w) tg ag tv av ex (random_nonce w) \<and>
         trace (snd (place_order_offchain w st tg ag tv av ex))
           = trace st @ EthSign (defaultAccount w) (sha256 w m) # rest"
    by blast
next
  assume "\<not> (uint256_range (wad_value ag) \<and> uint256_range (wad_value av) \<and> uint256_range ex)"
  then have "order_message (self_address w) tg ag tv av ex (random_nonce w) = Inl EncodingError"
    using order_message_Inl [of ag av ex "random_nonce w"] by blast
  then show "place_order_offchain w st tg ag tv av ex = (Inl EncodingError, st)"
    by (simp add: place_order_offchain_def Let_def)
qed

theorem canonical_signing_message_witness:
  "\<exists>m rest.
     order_message (self_address example_world) (Address 2) (Wad 100) (Address 3) (Wad 50) 10000000
        (random_nonce example_world) = Inr m \<and>
     canonical_layout m (self_address example_world) (Address 2) (Wad 100) (Address 3) (Wad 50) 10000000
        (random_nonce example_world) \<and>
     trace (snd (place_order_offchain example_world init_state (Address 2) (Wad 100) (Address 3) (Wad 50) 10000000))
        = trace init_state @ EthSign (defaultAccount example_world) (sha256 example_world m) # rest"
  using canonical_signing_message [of "Wad 100" "Wad 50" 10000000 example_world "Address 2" "Address 3" init_state]
  by (simp add: uint256_range_def)

lemma example_sig_parts:
  "fromhex (take 64 (drop 2 example_signature)) = Inr (replicate 32 0x11)"
  "fromhex (take 64 (drop 64 (drop 2 example_signature))) = Inr (replicate 32 0x22)"
  "fromhex (take 2 (drop 128 (drop 2 example_signature))) = Inr [0x1b]"
  by (simp_all add: example_signature_def hex_digit_def is_ascii_space_def eval_nat_numeral)

section \<open>The tracker\<close>

lemma tracked_Some: "onchain_orders st = Some d \<Longrightarrow> tracked st = set (list_of_dlist d)"
  by (simp add: tracked_def)

lemma amount_filled_onchain:
  "amount_filled w st (POnChainOrder x) =
     (case call_uint w ''amountFilled''
             [AbiAddress (Order.token_get x), AbiUint (wad_value (Order.amount_get x)),
              AbiAddress (Order.token_give x), AbiUint (wad_value (Order.amount_give x)),
              AbiUint (Order.expires x), AbiUint (OnChainOrder.nonce x),
              AbiAddress (OnChainOrder.user x), AbiUint 0, AbiBytes [], AbiBytes []] of
        Inl e \<Rightarrow> Inl e
      | Inr f \<Rightarrow> Inr (Wad f),
      log (Call ''amountFilled''
             [AbiAddress (Order.token_get x), AbiUint (wad_value (Order.amount_get x)),
              AbiAddress (Order.token_give x), AbiUint (wad_value (Order.amount_give x)),
              AbiUint (Order.expires x), AbiUint (OnChainOrder.nonce x),
              AbiAddress (OnChainOrder.user x), AbiUint 0, AbiBytes [], AbiBytes []]) st)"
  by (simp add: amount_filled_def contract_call_uint_def split: sum.splits)

lemma fst_amount_filled_state:
  "fst (amount_filled w st order) = fst (amount_filled w st' order)"
  by (simp add: amount_filled_def contract_call_uint_def split: option.splits sum.splits prod.splits)

lemma snd_amount_filled_orders:
  "onchain_orders (snd (amount_filled w st order)) = onchain_orders st"
  by (simp add: amount_filled_def contract_call_uint_def log_def split: option.splits sum.splits prod.splits)

lemma snd_amount_filled_handlers:
  "order_handlers (snd (amount_filled w st order)) = order_handlers st"
  by (simp add: amount_filled_def contract_call_uint_def log_def split: option.splits sum.splits prod.splits)

lemma onchain_orders_remove_Some:
  "onchain_orders st = Some d \<Longrightarrow> x \<in> set (list_of_dlist d) \<Longrightarrow>
     onchain_orders_remove x st = Inr (st\<lparr>onchain_orders := Some (Dlist.remove x d)\<rparr>)"
  by (simp add: onchain_orders_remove_def Dlist.member_def)

lemma set_dlist_remove: "set (list_of_dlist (Dlist.remove x d)) = set (list_of_dlist d) - {x}"
  by simp

lemma remove_filled_returns:
  assumes "onchain_orders st = Some d"
    and "distinct xs"
    and "set xs \<subseteq> set (list_of_dlist d)"
    and "\<forall>y\<in>set xs. \<exists>f. fst (amount_filled w st0 (POnChainOrder y)) = Inr f"
  shows "\<exists>st' d'. remove_filled w xs st = (Inr (), st') \<and> onchain_orders st' = Some d' \<and>
           order_handlers st' = order_handlers st \<and>
           set (list_of_dlist d') =
             set (list_of_dlist d) -
               {y \<in> set xs. fst (amount_filled w st0 (POnChainOrder y)) = Inr (Order.amount_get y)}"
  using assms
proof (induction xs arbitrary: st d)
  case Nil
  then show ?case by simp
next
  case (Cons x xs)
  from Cons.prems(4) obtain f where f: "fst (amount_filled w st0 (POnChainOrder x)) = Inr f"
    by auto
  define st1 where "st1 = snd (amount_filled w st (POnChainOrder x))"
  have af: "amount_filled w st (POnChainOrder x) = (Inr f, st1)"
    using f fst_amount_filled_state [of w st "POnChainOrder x" st0]
    by (simp add: st1_def prod_eq_iff)
  have o1: "onchain_orders st1 = Some d" and h1: "order_handlers st1 = order_handlers st"
    using Cons.prems(1) by (simp_all add: st1_def snd_amount_filled_orders snd_amount_filled_handlers)
  have xd: "x \<in> set (list_of_dlist d)" and xxs: "x \<notin> set xs" and dxs: "distinct xs"
    and sub: "set xs \<subseteq> set (list_of_dlist d)"
    and ans: "\<forall>y\<in>set xs. \<exists>f. fst (amount_filled w st0 (POnChainOrder y)) = Inr f"
    using Cons.prems by auto
  show ?case
  proof (cases "f = Order.amount_get x")
    case True
    define st2 where "st2 = st1\<lparr>onchain_orders := Some (Dlist.remove x d)\<rparr>"
    have rm: "onchain_orders_remove x st1 = Inr st2"
      using onchain_orders_remove_Some [OF o1 xd] by (simp add: st2_def)
    have o2: "onchain_orders st2 = Some (Dlist.remove x d)" by (simp add: st2_def)
    have sub2: "set xs \<subseteq> set (list_of_dlist (Dlist.remove x d))"
      using sub xxs by auto
    from Cons.IH [OF o2 dxs sub2 ans] obtain st' d' where
      r: "remove_filled w xs st2 = (Inr (), st')" and o': "onchain_orders st' = Some d'"
      and h': "order_handlers st' = order_handlers st2"
      and s': "set (list_of_dlist d') = set (list_of_dlist (Dlist.remove x d)) -
                 {y \<in> set xs. fst (amount_filled w st0 (POnChainOrder y)) = Inr (Order.amount_get y)}"
      by blast
    have "remove_filled w (x # xs) st = (Inr (), st')"
      using af True rm r by simp
    moreover have "order_handlers st' = order_handlers st"
      using h' h1 by (simp add: st2_def)
    moreover have "set (list_of_dlist d') = set (list_of_dlist d) -
        {y \<in> set (x # xs). fst (amount_filled w st0 (POnChainOrder y)) = Inr (Order.amount_get y)}"
      using s' f True by auto
    ultimately show ?thesis using o' by blast
  next
    case False
    from Cons.IH [OF o1 dxs sub ans] obtain st' d' where
      r: "remove_filled w xs st1 = (Inr (), st')" and o': "onchain_orders st' = Some d'"
      and h': "order_handlers st' = order_handlers st1"
      and s': "set (list_of_dlist d') = set (list_of_dlist d) -
                 {y \<in> set xs. fst (amount_filled w st0 (POnChainOrder y)) = Inr (Order.amount_get y)}"
      by blast
    have "remove_filled w (x # xs) st = (Inr (), st')"
      using af False r by simp
    moreover have "order_handlers st' = order_handlers st"
      using h' h1 by simp
    moreover have "set (list_of_dlist d') = set (list_of_dlist d) -
        {y \<in> set (x # xs). fst (amount_filled w st0 (POnChainOrder y)) = Inr (Order.amount_get y)}"
      using s' f False by auto
    ultimately show ?thesis using o' by blast
  qed
qed

lemma discover_orders_initialized:
  "onchain_orders st = Some d \<Longrightarrow> discover_orders w st = (Inr (), st)"
  by (simp add: discover_orders_def)

lemma active_onchain_orders_prunes:
  assumes init: "onchain_orders st = Some d"
    and answers: "\<forall>y\<in>set (list_of_dlist d). \<exists>f. fst (amount_filled w st (POnChainOrder y)) = Inr f"
  shows "\<exists>res st' d'. active_onchain_orders w st = (Inr res, st') \<and>
           onchain_orders st' = Some d' \<and> res = list_of_dlist d' \<and>
           (\<forall>x\<in>set (list_of_dlist d).
              (fst (amount_filled w st (POnChainOrder x)) = Inr (Order.amount_get x)
                 \<longrightarrow> x \<notin> set res \<and> x \<notin> tracked st') \<and>
              (fst (amount_filled w st (POnChainOrder x)) \<noteq> Inr (Order.amount_get x)
                 \<longrightarrow> x \<in> set res \<and> x \<in> tracked st'))"
proof -
  from remove_filled_returns [OF init distinct_list_of_dlist order_refl answers]
  obtain st' d' where r: "remove_filled w (list_of_dlist d) st = (Inr (), st')"
    and o': "onchain_orders st' = Some d'"
    and s': "set (list_of_dlist d') = set (list_of_dlist d) -
       {y \<in> set (list_of_dlist d). fst (amount_filled w st (POnChainOrder y)) = Inr (Order.amount_get y)}"
    by blast
  have "active_onchain_orders w st = (Inr (list_of_dlist d'), st')"
    using init r o' by (simp add: active_onchain_orders_def discover_orders_initialized)
  then show ?thesis using o' s' by (auto simp: tracked_def)
qed

text \<open>
  Claim C2. In an initialised tracker whose contract queries are all answered,
  \<open>active_onchain_orders\<close> returns the list of the tracked set it leaves behind, and for
  every order tracked before the call: when the reported filled amount equals its
  \<open>amount_get\<close>, the order is neither in the returned list nor in the set; when the
  reported amount is any other value (in particular a strictly smaller one), the order
  is in both.
\<close>

theorem tracker_pruning:
  assumes init: "onchain_orders st = Some d"
    and answers: "\<forall>y\<in>set (list_of_dlist d). \<exists>f. fst (amount_filled w st (POnChainOrder y)) = Inr f"
  shows "\<exists>res st' d'. active_onchain_orders w st = (Inr res, st') \<and>
           onchain_orders st' = Some d' \<and> res = list_of_dlist d' \<and>
           (\<forall>x\<in>set (list_of_dlist d).
              (fst (amount_filled w st (POnChainOrder x)) = Inr (Order.amount_get x)
                 \<longrightarrow> x \<notin> set res \<and> x \<notin> tracked st') \<and>
              (fst (amount_filled w st (POnChainOrder x)) \<noteq> Inr (Order.amount_get x)
                 \<longrightarrow> x \<in> set res \<and> x \<in> tracked st'))"
  using assms by (rule active_onchain_orders_prunes)

lemma example_orders_distinct: "example_order_filled \<noteq> example_order_open"
  by (simp add: example_order_filled_def example_order_open_def OnChainOrder.defs Order.defs)

lemma example_filled_report:
  "fst (amount_filled example_world st (POnChainOrder example_order_filled)) = Inr (Wad 100)"
  "fst (amount_filled example_world st (POnChainOrder example_order_open)) = Inr (Wad 100)"
  by (simp_all add: amount_filled_onchain example_world_def)

lemma example_amount_get:
  "Order.amount_get example_order_filled = Wad 100"
  "Order.amount_get example_order_open = Wad 250"
  by (simp_all add: example_order_filled_def example_order_open_def OnChainOrder.defs Order.defs)

theorem tracker_pruning_witness:
  "\<exists>res st'. active_onchain_orders example_world tracking_state = (Inr res, st') \<and>
       example_order_filled \<notin> set res \<and> example_order_filled \<notin> tracked st' \<and>
       example_order_open \<in> set res \<and> example_order_open \<in> tracked st'"
proof -
  have init: "onchain_orders tracking_state =
      Some (Dlist.insert example_order_filled (Dlist.insert example_order_open Dlist.empty))"
    by (simp add: tracking_state_def)
  have answers: "\<forall>y\<in>set (list_of_dlist (Dlist.insert example_order_filled (Dlist.insert example_order_open Dlist.empty))).
      \<exists>f. fst (amount_filled example_world tracking_state (POnChainOrder y)) = Inr f"
    by (simp add: example_filled_report)
  from tracker_pruning [OF init answers]
  show ?thesis
    by (auto simp: example_filled_report example_amount_get)
qed

section \<open>Placing on-chain orders\<close>

lemma dlist_insert_member: "x \<in> set (list_of_dlist d) \<Longrightarrow> Dlist.insert x d = d"
  by (simp add: dlist_eq_iff)

lemma place_order_onchain_cases:
  "place_order_onchain w st tg ag tv av ex =
     (let args = [AbiAddress tg, AbiUint (wad_value ag), AbiAddress tv, AbiUint (wad_value av),
                  AbiUint ex, AbiUint (random_nonce w)];
          result = transact_receipt w ''order'' args 0;
          st1 = log (Transact ''order'' args 0) st
      in case (result, onchain_orders st) of
           (Some rc, Some d) \<Rightarrow>
             (result, st1\<lparr>onchain_orders :=
                Some (Dlist.insert (OnChainOrder.make tg ag tv av ex (random_nonce w) (defaultAccount w)) d)\<rparr>)
         | _ \<Rightarrow> (result, st1))"
  by (auto simp: place_order_onchain_def transact_def Let_def log_def onchain_orders_add_def
      split: option.splits)

text \<open>
  Claim C10. \<open>place_order_onchain\<close> leaves \<open>self._onchain_orders\<close> exactly as it was
  when the transaction yields no receipt or when the tracker is not initialised; it adds
  the new order (and nothing else) when a receipt is returned and the tracker is
  initialised. The registered handlers are never changed.
\<close>

theorem place_order_onchain_tracker_atomic:
  "(fst (place_order_onchain w st tg ag tv av ex) = None \<or> onchain_orders st = None \<longrightarrow>
      onchain_orders (snd (place_order_onchain w st tg ag tv av ex)) = onchain_orders st)
   \<and> (\<forall>d. fst (place_order_onchain w st tg ag tv av ex) \<noteq> None \<and> onchain_orders st = Some d \<longrightarrow>
        onchain_orders (snd (place_order_onchain w st tg ag tv av ex)) =
          Some (Dlist.insert (OnChainOrder.make tg ag tv av ex (random_nonce w) (defaultAccount w)) d))
   \<and> order_handlers (snd (place_order_onchain w st tg ag tv av ex)) = order_handlers st"
  by (auto simp: place_order_onchain_cases Let_def log_def split: option.splits)

theorem place_order_onchain_tracker_atomic_witness:
  "fst (place_order_onchain failing_world tracking_state (Address 2) (Wad 100) (Address 3) (Wad 50) 10000000) = None
   \<and> onchain_orders (snd (place_order_onchain failing_world tracking_state (Address 2) (Wad 100) (Address 3) (Wad 50) 10000000))
       = onchain_orders tracking_state
   \<and> fst (place_order_onchain example_world init_state (Address 2) (Wad 100) (Address 3) (Wad 50) 10000000) = Some (Receipt [1])
   \<and> onchain_orders (snd (place_order_onchain example_world init_state (Address 2) (Wad 100) (Address 3) (Wad 50) 10000000))
       = None"
proof -
  have f: "fst (place_order_onchain failing_world tracking_state (Address 2) (Wad 100) (Address 3) (Wad 50) 10000000) = None"
    by (simp add: place_order_onchain_cases Let_def failing_world_def example_world_def tracking_state_def)
  have g: "fst (place_order_onchain example_world init_state (Address 2) (Wad 100) (Address 3) (Wad 50) 10000000) = Some (Receipt [1])"
    by (simp add: place_order_onchain_cases Let_def example_world_def init_state_def)
  have i: "onchain_orders init_state = None" by (simp add: init_state_def)
  from place_order_onchain_tracker_atomic [of failing_world tracking_state "Address 2" "Wad 100" "Address 3" "Wad 50" 10000000]
    place_order_onchain_tracker_atomic [of example_world init_state "Address 2" "Wad 100" "Address 3" "Wad 50" 10000000]
    f g i
  show ?thesis by simp
qed

lemma run_handlers_known:
  "onchain_orders st = Some d \<Longrightarrow> to_order ev \<in> set (list_of_dlist d) \<Longrightarrow> run_handlers hs ev st = Inr st"
proof (induction hs)
  case Nil
  show ?case by simp
next
  case (Cons h hs)
  have "run_handler h ev st = Inr st"
    using Cons.prems by (cases h) (simp add: onchain_orders_add_def dlist_insert_member)
  with Cons show ?case by simp
qed

lemma remove_filled_trace: "\<exists>rest. trace (snd (remove_filled w xs st)) = trace st @ rest"
proof (induction xs arbitrary: st)
  case Nil
  show ?case by simp
next
  case (Cons x xs)
  obtain res st1 where af: "amount_filled w st (POnChainOrder x) = (res, st1)"
    by (cases "amount_filled w st (POnChainOrder x)")
  then have t1: "\<exists>a. trace st1 = trace st @ [a]"
    by (auto simp: amount_filled_onchain log_def)
  show ?case
  proof (cases res)
    case (Inl e)
    with af t1 show ?thesis by auto
  next
    case (Inr f)
    show ?thesis
    proof (cases "f = Order.amount_get x")
      case True
      show ?thesis
      proof (cases "onchain_orders_remove x st1")
        case (Inl e)
        with af Inr True t1 show ?thesis by auto
      next
        case r: (Inr st2)
        then have "trace st2 = trace st1"
          by (auto simp: onchain_orders_remove_def split: option.splits if_splits)
        moreover from Cons.IH [of st2] obtain rest where "trace (snd (remove_filled w xs st2)) = trace st2 @ rest"
          by blast
        ultimately show ?thesis using af Inr True r t1 by auto
      qed
    next
      case False
      from Cons.IH [of st1] obtain rest where "trace (snd (remove_filled w xs st1)) = trace st1 @ rest"
        by blast
      then show ?thesis using af Inr False t1 by auto
    qed
  qed
qed

lemma remove_filled_initialized:
  "onchain_orders st \<noteq> None \<Longrightarrow> onchain_orders (snd (remove_filled w xs st)) \<noteq> None"
proof (induction xs arbitrary: st)
  case Nil
  then show ?case by simp
next
  case (Cons x xs)
  obtain res st1 where af: "amount_filled w st (POnChainOrder x) = (res, st1)"
    by (cases "amount_filled w st (POnChainOrder x)")
  then have o1: "onchain_orders st1 \<noteq> None"
    using Cons.prems snd_amount_filled_orders [of w st "POnChainOrder x"] by simp
  show ?case
  proof (cases res)
    case (Inl e)
    with af o1 show ?thesis by simp
  next
    case (Inr f)
    show ?thesis
    proof (cases "f = Order.amount_get x")
      case True
      show ?thesis
      proof (cases "onchain_orders_remove x st1")
        case (Inl e)
        with af Inr True o1 show ?thesis by simp
      next
        case r: (Inr st2)
        then have "onchain_orders st2 \<noteq> None"
          by (auto simp: onchain_orders_remove_def split: option.splits if_splits)
        from Cons.IH [OF this] show ?thesis using af Inr True r by simp
      qed
    next
      case False
      from Cons.IH [OF o1] show ?thesis using af Inr False by simp
    qed
  qed
qed

section \<open>The first query\<close>

lemma add_old_orders_Some:
  "onchain_orders st = Some d \<Longrightarrow>
     \<exists>d'. add_old_orders old st = Inr (st\<lparr>onchain_orders := Some d'\<rparr>) \<and>
          set (list_of_dlist d') = set (list_of_dlist d) \<union> to_order ` set old"
proof (induction old arbitrary: st d)
  case Nil
  then show ?case by (intro exI [of _ d]) simp
next
  case (Cons a old)
  let ?st1 = "st\<lparr>onchain_orders := Some (Dlist.insert (to_order a) d)\<rparr>"
  have a1: "onchain_orders_add (to_order a) st = Inr ?st1"
    using Cons.prems by (simp add: onchain_orders_add_def)
  have "onchain_orders ?st1 = Some (Dlist.insert (to_order a) d)" by simp
  from Cons.IH [OF this] obtain d' where
    "add_old_orders old ?st1 = Inr (?st1\<lparr>onchain_orders := Some d'\<rparr>)"
    "set (list_of_dlist d') = set (list_of_dlist (Dlist.insert (to_order a) d)) \<union> to_order ` set old"
    by blast
  then show ?case using a1 by (intro exI [of _ d']) auto
qed

lemma discover_orders_first:
  assumes "onchain_orders st = None" and "past_events w ''Order'' 1000000 = Inr old"
  shows "\<exists>d1. discover_orders w st =
           (Inr (), st\<lparr>onchain_orders := Some d1,
                    order_handlers := order_handlers st @ [OnchainOrdersAdd],
                    trace := trace st @ [OnEvent ''Order'', PastEvents ''Order'' 1000000]\<rparr>)
          \<and> set (list_of_dlist d1) = to_order ` set old"
proof -
  let ?st3 = "st\<lparr>onchain_orders := Some Dlist.empty,
               order_handlers := order_handlers st @ [OnchainOrdersAdd],
               trace := trace st @ [OnEvent ''Order'', PastEvents ''Order'' 1000000]\<rparr>"
  have "onchain_orders ?st3 = Some Dlist.empty" by simp
  from add_old_orders_Some [OF this, of old] obtain d1 where
    a: "add_old_orders old ?st3 = Inr (?st3\<lparr>onchain_orders := Some d1\<rparr>)"
    and s: "set (list_of_dlist d1) = to_order ` set old"
    by auto
  have "discover_orders w st = (Inr (), ?st3\<lparr>onchain_orders := Some d1\<rparr>)"
    using assms a by (simp add: discover_orders_def Let_def on_order_def past_order_def log_def)
  with s show ?thesis by (intro exI [of _ d1]) simp
qed

lemma discover_orders_initializes: "onchain_orders (snd (discover_orders w st)) \<noteq> None"
proof (cases "onchain_orders st")
  case None
  let ?st3 = "st\<lparr>onchain_orders := Some Dlist.empty,
               order_handlers := order_handlers st @ [OnchainOrdersAdd],
               trace := trace st @ [OnEvent ''Order'', PastEvents ''Order'' 1000000]\<rparr>"
  show ?thesis
  proof (cases "past_events w ''Order'' 1000000")
    case (Inl e)
    with None show ?thesis
      by (simp add: discover_orders_def Let_def on_order_def past_order_def log_def)
  next
    case (Inr old)
    from discover_orders_first [OF None Inr] show ?thesis by auto
  qed
next
  case (Some d)
  then show ?thesis by (simp add: discover_orders_def)
qed

lemma active_onchain_orders_snd:
  "snd (active_onchain_orders w st) =
     (case discover_orders w st of
        (Inl e, st1) \<Rightarrow> st1
      | (Inr u, st1) \<Rightarrow>
          (case onchain_orders st1 of
             None \<Rightarrow> st1
           | Some d \<Rightarrow> snd (remove_filled w (list_of_dlist d) st1)))"
  by (auto simp: active_onchain_orders_def split: prod.splits sum.splits option.splits)

lemma active_onchain_orders_initializes:
  "onchain_orders (snd (active_onchain_orders w st)) \<noteq> None"
proof -
  obtain res st1 where d: "discover_orders w st = (res, st1)"
    by (cases "discover_orders w st")
  then have o1: "onchain_orders st1 \<noteq> None"
    using discover_orders_initializes [of w st] by simp
  then obtain d1 where d1: "onchain_orders st1 = Some d1" by auto
  show ?thesis
  proof (cases res)
    case (Inl e)
    with d o1 show ?thesis by (simp add: active_onchain_orders_snd)
  next
    case (Inr u)
    with d d1 remove_filled_initialized [OF o1, of w "list_of_dlist d1"]
    show ?thesis by (simp add: active_onchain_orders_snd)
  qed
qed

lemma run_handlers_adds:
  "onchain_orders st = Some d \<Longrightarrow> hs \<noteq> [] \<Longrightarrow>
     \<exists>d'. run_handlers hs ev st = Inr (st\<lparr>onchain_orders := Some d'\<rparr>) \<and>
          set (list_of_dlist d') = insert (to_order ev) (set (list_of_dlist d))"
proof (induction hs arbitrary: st d)
  case Nil
  then show ?case by simp
next
  case (Cons h hs)
  let ?st1 = "st\<lparr>onchain_orders := Some (Dlist.insert (to_order ev) d)\<rparr>"
  have h: "run_handler h ev st = Inr ?st1"
    using Cons.prems(1) by (cases h) (simp add: onchain_orders_add_def)
  show ?case
  proof (cases "hs = []")
    case True
    with h show ?thesis
      by (intro exI [of _ "Dlist.insert (to_order ev) d"]) simp
  next
    case False
    have "onchain_orders ?st1 = Some (Dlist.insert (to_order ev) d)" by simp
    from Cons.IH [OF this False] obtain d' where
      "run_handlers hs ev ?st1 = Inr (?st1\<lparr>onchain_orders := Some d'\<rparr>)"
      "set (list_of_dlist d') = insert (to_order ev) (set (list_of_dlist (Dlist.insert (to_order ev) d)))"
      by blast
    with h show ?thesis by (intro exI [of _ d']) auto
  qed
qed

lemma deliver_after_first_query:
  assumes "onchain_orders st' = Some d'" and "order_handlers st' = hs @ [OnchainOrdersAdd]"
  shows "\<exists>st''. deliver_order_event st' ev = Inr st'' \<and>
           tracked st'' = insert (to_order ev) (tracked st')"
proof -
  have ne: "order_handlers st' \<noteq> []" using assms(2) by simp
  from run_handlers_adds [OF assms(1) ne, of ev] obtain d'' where
    "run_handlers (order_handlers st') ev st' = Inr (st'\<lparr>onchain_orders := Some d''\<rparr>)"
    "set (list_of_dlist d'') = insert (to_order ev) (set (list_of_dlist d'))"
    by blast
  then show ?thesis using assms(1)
    by (intro exI [of _ "st'\<lparr>onchain_orders := Some d''\<rparr>"])
       (simp add: deliver_order_event_def tracked_def)
qed

lemma amount_filled_onchain_trace:
  "\<exists>args. trace (snd (amount_filled w st (POnChainOrder x))) = trace st @ [Call ''amountFilled'' args]"
  by (simp add: amount_filled_onchain log_def)

lemma remove_filled_calls:
  "\<exists>rest. trace (snd (remove_filled w xs st)) = trace st @ rest \<and>
          (\<forall>a\<in>set rest. \<exists>args. a = Call ''amountFilled'' args)"
proof (induction xs arbitrary: st)
  case Nil
  show ?case by simp
next
  case (Cons x xs)
  obtain res st1 where af: "amount_filled w st (POnChainOrder x) = (res, st1)"
    by (cases "amount_filled w st (POnChainOrder x)")
  with amount_filled_onchain_trace [of w st x] obtain args where
    t1: "trace st1 = trace st @ [Call ''amountFilled'' args]"
    by auto
  have step: "\<exists>rest. trace (snd (remove_filled w xs st2)) = trace st @ rest \<and>
          (\<forall>a\<in>set rest. \<exists>args. a = Call ''amountFilled'' args)"
    if "trace st2 = trace st1" for st2
  proof -
    from Cons.IH [of st2] obtain rest where
      r: "trace (snd (remove_filled w xs st2)) = trace st2 @ rest"
      and c: "\<forall>a\<in>set rest. \<exists>args. a = Call ''amountFilled'' args"
      by blast
    have "trace (snd (remove_filled w xs st2)) = trace st @ (Call ''amountFilled'' args # rest)"
      using r that t1 by simp
    moreover have "\<forall>a\<in>set (Call ''amountFilled'' args # rest). \<exists>args. a = Call ''amountFilled'' args"
      using c by simp
    ultimately show ?thesis by blast
  qed
  have stop: "\<exists>rest. trace st1 = trace st @ rest \<and>
          (\<forall>a\<in>set rest. \<exists>args. a = Call ''amountFilled'' args)"
    using t1 by (intro exI [of _ "[Call ''amountFilled'' args]"]) simp
  show ?case
  proof (cases res)
    case (Inl e)
    with af stop show ?thesis by simp
  next
    case (Inr f)
    show ?thesis
    proof (cases "f = Order.amount_get x")
      case True
      show ?thesis
      proof (cases "onchain_orders_remove x st1")
        case (Inl e)
        with af Inr True stop show ?thesis by simp
      next
        case r: (Inr st2)
        then have "trace st2 = trace st1"
          by (auto simp: onchain_orders_remove_def split: option.splits if_splits)
        from step [OF this] show ?thesis using af Inr True r by simp
      qed
    next
      case False
      from step [of st1] show ?thesis using af Inr False by simp
    qed
  qed
qed

lemma first_query_end_to_end:
  assumes un: "onchain_orders st = None"
    and pe: "past_events w ''Order'' 1000000 = Inr old"
    and ans: "\<forall>y\<in>to_order ` set old. \<exists>f. fst (amount_filled w st (POnChainOrder y)) = Inr f"
  shows "\<exists>res st' d' rest.
           active_onchain_orders w st = (Inr res, st') \<and>
           onchain_orders st' = Some d' \<and> res = list_of_dlist d' \<and>
           set res = {x \<in> to_order ` set old.
                        fst (amount_filled w st (POnChainOrder x)) \<noteq> Inr (Order.amount_get x)} \<and>
           tracked st' = set res \<and>
           order_handlers st' = order_handlers st @ [OnchainOrdersAdd] \<and>
           trace st' = trace st @ OnEvent ''Order'' # PastEvents ''Order'' 1000000 # rest \<and>
           (\<forall>a\<in>set rest. \<exists>args. a = Call ''amountFilled'' args) \<and>
           (\<forall>ev. \<exists>st''. deliver_order_event st' ev = Inr st'' \<and>
                   tracked st'' = insert (to_order ev) (tracked st'))"
proof -
  from discover_orders_first [OF un pe] obtain d1 where
    d: "discover_orders w st =
           (Inr (), st\<lparr>onchain_orders := Some d1,
                    order_handlers := order_handlers st @ [OnchainOrdersAdd],
                    trace := trace st @ [OnEvent ''Order'', PastEvents ''Order'' 1000000]\<rparr>)"
    and s: "set (list_of_dlist d1) = to_order ` set old"
    by blast
  let ?st1 = "st\<lparr>onchain_orders := Some d1,
                    order_handlers := order_handlers st @ [OnchainOrdersAdd],
                    trace := trace st @ [OnEvent ''Order'', PastEvents ''Order'' 1000000]\<rparr>"
  have o1: "onchain_orders ?st1 = Some d1" by simp
  have ans1: "\<forall>y\<in>set (list_of_dlist d1). \<exists>f. fst (amount_filled w st (POnChainOrder y)) = Inr f"
    using ans s by simp
  from remove_filled_returns [OF o1 distinct_list_of_dlist order_refl ans1] obtain st' d' where
    r: "remove_filled w (list_of_dlist d1) ?st1 = (Inr (), st')"
    and o': "onchain_orders st' = Some d'"
    and h': "order_handlers st' = order_handlers ?st1"
    and s': "set (list_of_dlist d') = set (list_of_dlist d1) -
       {y \<in> set (list_of_dlist d1). fst (amount_filled w st (POnChainOrder y)) = Inr (Order.amount_get y)}"
    by blast
  from remove_filled_calls [of w "list_of_dlist d1" ?st1] r obtain rest where
    t': "trace st' = trace ?st1 @ rest"
    and c': "\<forall>a\<in>set rest. \<exists>args. a = Call ''amountFilled'' args"
    by auto
  have a: "active_onchain_orders w st = (Inr (list_of_dlist d'), st')"
    using d r o' by (simp add: active_onchain_orders_def)
  have set_eq: "set (list_of_dlist d') = {x \<in> to_order ` set old.
      fst (amount_filled w st (POnChainOrder x)) \<noteq> Inr (Order.amount_get x)}"
    using s' s by auto
  have tr: "tracked st' = set (list_of_dlist d')"
    using o' by (simp add: tracked_def)
  have hh: "order_handlers st' = order_handlers st @ [OnchainOrdersAdd]"
    using h' by simp
  have tt: "trace st' = trace st @ OnEvent ''Order'' # PastEvents ''Order'' 1000000 # rest"
    using t' by simp
  have dl: "\<forall>ev. \<exists>st''. deliver_order_event st' ev = Inr st'' \<and>
                   tracked st'' = insert (to_order ev) (tracked st')"
    using deliver_after_first_query [OF o' hh] by blast
  from a o' set_eq tr hh tt c' dl show ?thesis by blast
qed

text \<open>
  Claim C5, as the code has it. On a query of an uninitialised tracker whose past-event
  query is answered, the handler for \<open>Order\<close> events is registered first and the past
  events are fetched second, over the fixed window of 1000000 blocks that
  \<open>active_onchain_orders\<close> passes to \<open>past_order\<close>; the tracked set before pruning
  holds exactly the orders of the fetched events. When the contract also answers the
  filled-amount queries, that first call of \<open>active_onchain_orders\<close> returns normally,
  and afterwards: the tracked set and the returned list hold exactly the orders of the
  fetched events that are not reported filled up to their \<open>amount_get\<close>; the handler is
  registered; the requests made are the registration, then the past-event query, then
  only \<open>amountFilled\<close> calls; and every \<open>Order\<close> event delivered from then on adds
  its order to the tracked set. Every query leaves the tracker initialised, an
  initialised tracker is not discovered again, and placing an order never resets it:
  the transition is one-way.
\<close>

theorem first_query_discovery:
  "(\<forall>old. onchain_orders st = None \<and> past_events w ''Order'' 1000000 = Inr old \<longrightarrow>
      (\<exists>st1 d1 rest.
         discover_orders w st = (Inr (), st1) \<and>
         trace st1 = trace st @ [OnEvent ''Order'', PastEvents ''Order'' 1000000] \<and>
         order_handlers st1 = order_handlers st @ [OnchainOrdersAdd] \<and>
         onchain_orders st1 = Some d1 \<and>
         set (list_of_dlist d1) = to_order ` set old \<and>
         trace (snd (active_onchain_orders w st))
           = trace st @ OnEvent ''Order'' # PastEvents ''Order'' 1000000 # rest))
   \<and> (\<forall>old. onchain_orders st = None \<and> past_events w ''Order'' 1000000 = Inr old \<and>
          (\<forall>y\<in>to_order ` set old. \<exists>f. fst (amount_filled w st (POnChainOrder y)) = Inr f) \<longrightarrow>
      (\<exists>res st' d' rest.
         active_onchain_orders w st = (Inr res, st') \<and>
         onchain_orders st' = Some d' \<and> res = list_of_dlist d' \<and>
         set res = {x \<in> to_order ` set old.
                      fst (amount_filled w st (POnChainOrder x)) \<noteq> Inr (Order.amount_get x)} \<and>
         tracked st' = set res \<and>
         order_handlers st' = order_handlers st @ [OnchainOrdersAdd] \<and>
         trace st' = trace st @ OnEvent ''Order'' # PastEvents ''Order'' 1000000 # rest \<and>
         (\<forall>a\<in>set rest. \<exists>args. a = Call ''amountFilled'' args) \<and>
         (\<forall>ev. \<exists>st''. deliver_order_event st' ev = Inr st'' \<and>
                 tracked st'' = insert (to_order ev) (tracked st'))))
   \<and> onchain_orders (snd (active_onchain_orders w st)) \<noteq> None
   \<and> (onchain_orders st \<noteq> None \<longrightarrow> discover_orders w st = (Inr (), st))
   \<and> (onchain_orders st \<noteq> None \<longrightarrow>
        onchain_orders (snd (place_order_onchain w st tg ag tv av ex)) \<noteq> None)"
proof (intro conjI allI impI)
  fix old
  assume a: "onchain_orders st = None \<and> past_events w ''Order'' 1000000 = Inr old"
  from a have a1: "onchain_orders st = None" and a2: "past_events w ''Order'' 1000000 = Inr old"
    by simp_all
  from discover_orders_first [OF a1 a2] obtain d1 where
    d: "discover_orders w st =
           (Inr (), st\<lparr>onchain_orders := Some d1,
                    order_handlers := order_handlers st @ [OnchainOrdersAdd],
                    trace := trace st @ [OnEvent ''Order'', PastEvents ''Order'' 1000000]\<rparr>)"
    and s: "set (list_of_dlist d1) = to_order ` set old"
    by blast
  let ?st1 = "st\<lparr>onchain_orders := Some d1,
                    order_handlers := order_handlers st @ [OnchainOrdersAdd],
                    trace := trace st @ [OnEvent ''Order'', PastEvents ''Order'' 1000000]\<rparr>"
  from remove_filled_trace [of w "list_of_dlist d1" ?st1] obtain rest where
    "trace (snd (remove_filled w (list_of_dlist d1) ?st1)) = trace ?st1 @ rest"
    by blast
  then have "trace (snd (active_onchain_orders w st))
           = trace st @ OnEvent ''Order'' # PastEvents ''Order'' 1000000 # rest"
    using d by (simp add: active_onchain_orders_snd)
  with d s show "\<exists>st1 d1 rest.
         discover_orders w st = (Inr (), st1) \<and>
         trace st1 = trace st @ [OnEvent ''Order'', PastEvents ''Order'' 1000000] \<and>
         order_handlers st1 = order_handlers st @ [OnchainOrdersAdd] \<and>
         onchain_orders st1 = Some d1 \<and>
         set (list_of_dlist d1) = to_order ` set old \<and>
         trace (snd (active_onchain_orders w st))
           = trace st @ OnEvent ''Order'' # PastEvents ''Order'' 1000000 # rest"
    by (intro exI [of _ ?st1] exI [of _ d1] exI [of _ rest]) simp
next
  fix old
  assume b: "onchain_orders st = None \<and> past_events w ''Order'' 1000000 = Inr old \<and>
          (\<forall>y\<in>to_order ` set old. \<exists>f. fst (amount_filled w st (POnChainOrder y)) = Inr f)"
  from b have b1: "onchain_orders st = None" and b2: "past_events w ''Order'' 1000000 = Inr old"
    and b3: "\<forall>y\<in>to_order ` set old. \<exists>f. fst (amount_filled w st (POnChainOrder y)) = Inr f"
    by simp_all
  show "\<exists>res st' d' rest.
         active_onchain_orders w st = (Inr res, st') \<and>
         onchain_orders st' = Some d' \<and> res = list_of_dlist d' \<and>
         set res = {x \<in> to_order ` set old.
                      fst (amount_filled w st (POnChainOrder x)) \<noteq> Inr (Order.amount_get x)} \<and>
         tracked st' = set res \<and>
         order_handlers st' = order_handlers st @ [OnchainOrdersAdd] \<and>
         trace st' = trace st @ OnEvent ''Order'' # PastEvents ''Order'' 1000000 # rest \<and>
         (\<forall>a\<in>set rest. \<exists>args. a = Call ''amountFilled'' args) \<and>
         (\<forall>ev. \<exists>st''. deliver_order_event st' ev = Inr st'' \<and>
                 tracked st'' = insert (to_order ev) (tracked st'))"
    by (rule first_query_end_to_end [OF b1 b2 b3])
next
  show "onchain_orders (snd (active_onchain_orders w st)) \<noteq> None"
    by (rule active_onchain_orders_initializes)
next
  assume "onchain_orders st \<noteq> None"
  then show "discover_orders w st = (Inr (), st)"
    by (auto simp: discover_orders_def)
next
  assume "onchain_orders st \<noteq> None"
  then show "onchain_orders (snd (place_order_onchain w st tg ag tv av ex)) \<noteq> None"
    by (auto simp: place_order_onchain_cases Let_def log_def split: option.splits)
qed

lemma example_log_to_order: "to_order example_log = example_order_open"
  by (simp add: to_order_def example_log_def example_order_open_def LogOrder.defs)

lemma old_event_world_run:
  "active_onchain_orders old_event_world init_state =
     (Inr [], \<lparr>onchain_orders = Some Dlist.empty, order_handlers = [OnchainOrdersAdd],
               trace = [OnEvent ''Order'', PastEvents ''Order'' 1000000]\<rparr>)"
  by (simp add: active_onchain_orders_def discover_orders_def Let_def on_order_def past_order_def
      log_def old_event_world_def example_world_def init_state_def)

text \<open>
  Claim C5 as stated fails: the lookback window is not the caller's to choose. With an
  event that a window of 2000000 blocks would return, the first query still asks for
  1000000 blocks and the tracker stays empty.
\<close>

theorem lookback_window_counterexample:
  "past_events old_event_world ''Order'' 2000000 = Inr [example_log]
   \<and> fst (active_onchain_orders old_event_world init_state) = Inr []
   \<and> trace (snd (active_onchain_orders old_event_world init_state))
       = [OnEvent ''Order'', PastEvents ''Order'' 1000000]"
  by (simp add: old_event_world_run) (simp add: old_event_world_def example_world_def)

lemma example_log_filled_to_order: "to_order example_log_filled = example_order_filled"
  by (simp add: to_order_def example_log_filled_def example_order_filled_def LogOrder.defs)

lemma history_world_filled_report:
  "fst (amount_filled history_world st (POnChainOrder example_order_filled)) = Inr (Wad 100)"
  "fst (amount_filled history_world st (POnChainOrder example_order_open)) = Inr (Wad 100)"
  by (simp_all add: amount_filled_onchain history_world_def example_world_def)

lemma history_world_setup:
  "onchain_orders init_state = None"
  "past_events history_world ''Order'' 1000000 = Inr [example_log, example_log_filled]"
  "to_order ` set [example_log, example_log_filled] = {example_order_open, example_order_filled}"
  "trace init_state = []"
  "order_handlers init_state = []"
  by (simp_all add: init_state_def history_world_def example_world_def
      example_log_to_order example_log_filled_to_order)

lemma history_world_open_orders:
  "{x \<in> {example_order_open, example_order_filled}.
        fst (amount_filled history_world init_state (POnChainOrder x)) \<noteq> Inr (Order.amount_get x)}
      = {example_order_open}"
  by (auto simp: history_world_filled_report example_amount_get)

theorem first_query_discovery_witness:
  "(\<exists>st1 d1 rest.
      discover_orders history_world init_state = (Inr (), st1) \<and>
      trace st1 = [OnEvent ''Order'', PastEvents ''Order'' 1000000] \<and>
      order_handlers st1 = [OnchainOrdersAdd] \<and>
      onchain_orders st1 = Some d1 \<and>
      set (list_of_dlist d1) = {example_order_open, example_order_filled} \<and>
      trace (snd (active_onchain_orders history_world init_state))
        = OnEvent ''Order'' # PastEvents ''Order'' 1000000 # rest)
   \<and> (\<exists>res st' rest.
      active_onchain_orders history_world init_state = (Inr res, st') \<and>
      set res = {example_order_open} \<and>
      tracked st' = {example_order_open} \<and>
      order_handlers st' = [OnchainOrdersAdd] \<and>
      trace st' = OnEvent ''Order'' # PastEvents ''Order'' 1000000 # rest)"
proof -
  note T = first_query_discovery [of init_state history_world]
  have h12: "onchain_orders init_state = None \<and>
      past_events history_world ''Order'' 1000000 = Inr [example_log, example_log_filled]"
    by (simp add: history_world_setup)
  have h123: "onchain_orders init_state = None \<and>
      past_events history_world ''Order'' 1000000 = Inr [example_log, example_log_filled] \<and>
      (\<forall>y\<in>to_order ` set [example_log, example_log_filled].
         \<exists>f. fst (amount_filled history_world init_state (POnChainOrder y)) = Inr f)"
    by (simp add: history_world_setup history_world_filled_report
        example_log_to_order example_log_filled_to_order)
  from T [THEN conjunct1, THEN spec, THEN mp, OF h12] obtain st1 d1 rest1 where
    a: "discover_orders history_world init_state = (Inr (), st1)"
      "trace st1 = trace init_state @ [OnEvent ''Order'', PastEvents ''Order'' 1000000]"
      "order_handlers st1 = order_handlers init_state @ [OnchainOrdersAdd]"
      "onchain_orders st1 = Some d1"
      "set (list_of_dlist d1) = to_order ` set [example_log, example_log_filled]"
      "trace (snd (active_onchain_orders history_world init_state))
           = trace init_state @ OnEvent ''Order'' # PastEvents ''Order'' 1000000 # rest1"
    by (elim exE conjE)
  from T [THEN conjunct2, THEN conjunct1, THEN spec, THEN mp, OF h123] obtain res st' d' rest where
    b: "active_onchain_orders history_world init_state = (Inr res, st')"
      "set res = {x \<in> to_order ` set [example_log, example_log_filled].
          fst (amount_filled history_world init_state (POnChainOrder x)) \<noteq> Inr (Order.amount_get x)}"
      "tracked st' = set res"
      "order_handlers st' = order_handlers init_state @ [OnchainOrdersAdd]"
      "trace st' = trace init_state @ OnEvent ''Order'' # PastEvents ''Order'' 1000000 # rest"
      and b0: "onchain_orders st' = Some d'"
    by (elim exE conjE)
  have a': "trace st1 = [OnEvent ''Order'', PastEvents ''Order'' 1000000]"
    "order_handlers st1 = [OnchainOrdersAdd]"
    "set (list_of_dlist d1) = {example_order_open, example_order_filled}"
    "trace (snd (active_onchain_orders history_world init_state))
        = OnEvent ''Order'' # PastEvents ''Order'' 1000000 # rest1"
    using a(2,3,5,6) by (simp_all only: history_world_setup append_Nil)
  have b2: "set res = {example_order_open}"
    using b(2) by (simp only: history_world_setup(3) history_world_open_orders)
  have b': "tracked st' = {example_order_open}"
    "order_handlers st' = [OnchainOrdersAdd]"
    "trace st' = OnEvent ''Order'' # PastEvents ''Order'' 1000000 # rest"
    using b(3,4,5) b2 by (simp_all only: history_world_setup append_Nil)
  have A: "\<exists>st1 d1 rest.
      discover_orders history_world init_state = (Inr (), st1) \<and>
      trace st1 = [OnEvent ''Order'', PastEvents ''Order'' 1000000] \<and>
      order_handlers st1 = [OnchainOrdersAdd] \<and>
      onchain_orders st1 = Some d1 \<and>
      set (list_of_dlist d1) = {example_order_open, example_order_filled} \<and>
      trace (snd (active_onchain_orders history_world init_state))
        = OnEvent ''Order'' # PastEvents ''Order'' 1000000 # rest"
    using a(1,4) a' by (intro exI [of _ st1] exI [of _ d1] exI [of _ rest1] conjI)
  have B: "\<exists>res st' rest.
      active_onchain_orders history_world init_state = (Inr res, st') \<and>
      set res = {example_order_open} \<and>
      tracked st' = {example_order_open} \<and>
      order_handlers st' = [OnchainOrdersAdd] \<and>
      trace st' = OnEvent ''Order'' # PastEvents ''Order'' 1000000 # rest"
    using b(1) b2 b' by (intro exI [of _ res] exI [of _ st'] exI [of _ rest] conjI)
  from A B show ?thesis by (rule conjI)
qed

section \<open>Visibility of local writes\<close>

text \<open>
  Claim C4, as the code has it. After \<open>place_order_onchain\<close> returned a receipt on an
  initialised tracker, the new order is in the tracked set; a query made before any event
  delivery, whose contract queries are answered, returns it (once) provided the contract
  does not report its filled amount equal to its \<open>amount_get\<close>; and the delivery of an
  event that decodes to the same order leaves the client's state as it is.
\<close>

theorem local_write_visibility:
  assumes init: "onchain_orders st = Some d"
    and placed: "place_order_onchain w st tg ag tv av ex = (Some receipt, st1)"
    and x: "x = OnChainOrder.make tg ag tv av ex (random_nonce w) (defaultAccount w)"
  shows "x \<in> tracked st1
     \<and> ((\<forall>y\<in>tracked st1. \<exists>f. fst (amount_filled w' st1 (POnChainOrder y)) = Inr f)
          \<and> fst (amount_filled w' st1 (POnChainOrder x)) \<noteq> Inr (Order.amount_get x)
        \<longrightarrow> (\<exists>res st2. active_onchain_orders w' st1 = (Inr res, st2) \<and> x \<in> set res \<and> distinct res))
     \<and> (\<forall>ev. to_order ev = x \<longrightarrow> deliver_order_event st1 ev = Inr st1)"
proof -
  have r: "transact_receipt w ''order''
             [AbiAddress tg, AbiUint (wad_value ag), AbiAddress tv, AbiUint (wad_value av),
              AbiUint ex, AbiUint (random_nonce w)] 0 = Some receipt"
    using placed init by (simp add: place_order_onchain_cases Let_def split: option.splits)
  have o1: "onchain_orders st1 = Some (Dlist.insert x d)"
    using placed init r x by (auto simp: place_order_onchain_cases Let_def)
  have t1: "tracked st1 = insert x (set (list_of_dlist d))"
    using o1 by (simp add: tracked_def)
  have a: "x \<in> tracked st1" using t1 by simp
  have b: "\<exists>res st2. active_onchain_orders w' st1 = (Inr res, st2) \<and> x \<in> set res \<and> distinct res"
    if ans: "\<forall>y\<in>tracked st1. \<exists>f. fst (amount_filled w' st1 (POnChainOrder y)) = Inr f"
      and open_: "fst (amount_filled w' st1 (POnChainOrder x)) \<noteq> Inr (Order.amount_get x)"
  proof -
    have ans': "\<forall>y\<in>set (list_of_dlist (Dlist.insert x d)).
        \<exists>f. fst (amount_filled w' st1 (POnChainOrder y)) = Inr f"
      using ans t1 by simp
    from active_onchain_orders_prunes [OF o1 ans'] obtain res st2 d2 where
      q: "active_onchain_orders w' st1 = (Inr res, st2)" and l: "res = list_of_dlist d2"
      and m: "\<forall>y\<in>set (list_of_dlist (Dlist.insert x d)).
              (fst (amount_filled w' st1 (POnChainOrder y)) = Inr (Order.amount_get y)
                 \<longrightarrow> y \<notin> set res \<and> y \<notin> tracked st2) \<and>
              (fst (amount_filled w' st1 (POnChainOrder y)) \<noteq> Inr (Order.amount_get y)
                 \<longrightarrow> y \<in> set res \<and> y \<in> tracked st2)"
      by blast
    have "x \<in> set (list_of_dlist (Dlist.insert x d))" by simp
    with m open_ have "x \<in> set res" by blast
    moreover have "distinct res" using l by simp
    ultimately show ?thesis using q by blast
  qed
  have c: "deliver_order_event st1 ev = Inr st1" if "to_order ev = x" for ev
    using run_handlers_known [OF o1, of ev "order_handlers st1"] that
    by (simp add: deliver_order_event_def)
  from a b c show ?thesis by blast
qed

lemma fresh_world_place:
  "place_order_onchain fresh_world empty_tracking_state (Address 2) ag (Address 3) (Wad 50) 10000000 =
     (Some (Receipt [1]),
      \<lparr>onchain_orders = Some (Dlist.insert
          (OnChainOrder.make (Address 2) ag (Address 3) (Wad 50) 10000000 42 (Address 0xabc)) Dlist.empty),
       order_handlers = [OnchainOrdersAdd],
       trace = [Transact ''order'' [AbiAddress (Address 2), AbiUint (wad_value ag), AbiAddress (Address 3),
                  AbiUint 50, AbiUint 10000000, AbiUint 42] 0]\<rparr>)"
  by (simp add: place_order_onchain_cases Let_def fresh_world_def example_world_def
      empty_tracking_state_def random_nonce_def log_def)

text \<open>
  Claim C4 as stated fails: an order placed for \<open>amount_get = 0\<close> on a contract that
  has filled nothing is reported filled up to its \<open>amount_get\<close>, so the query that
  follows its placement removes it and returns the empty list.
\<close>

theorem zero_amount_order_pruned:
  "fst (place_order_onchain fresh_world empty_tracking_state (Address 2) (Wad 0) (Address 3) (Wad 50) 10000000)
     = Some (Receipt [1])
   \<and> fst (active_onchain_orders fresh_world
        (snd (place_order_onchain fresh_world empty_tracking_state (Address 2) (Wad 0) (Address 3) (Wad 50) 10000000)))
     = Inr []"
  by (simp add: fresh_world_place)
     (simp add: active_onchain_orders_def discover_orders_def amount_filled_onchain
        onchain_orders_remove_def Dlist.member_def fresh_world_def example_world_def log_def
        OnChainOrder.defs Order.defs)

theorem local_write_visibility_witness:
  "\<exists>res st2.
      active_onchain_orders fresh_world
        (snd (place_order_onchain fresh_world empty_tracking_state (Address 2) (Wad 100) (Address 3) (Wad 50) 10000000))
        = (Inr res, st2)
      \<and> OnChainOrder.make (Address 2) (Wad 100) (Address 3) (Wad 50) 10000000 42 (Address 0xabc) \<in> set res
      \<and> distinct res"
proof -
  let ?x = "OnChainOrder.make (Address 2) (Wad 100) (Address 3) (Wad 50) 10000000 42 (Address 0xabc)"
  let ?st1 = "snd (place_order_onchain fresh_world empty_tracking_state (Address 2) (Wad 100) (Address 3) (Wad 50) 10000000)"
  have init: "onchain_orders empty_tracking_state = Some Dlist.empty"
    by (simp add: empty_tracking_state_def)
  have placed: "place_order_onchain fresh_world empty_tracking_state (Address 2) (Wad 100) (Address 3) (Wad 50) 10000000
      = (Some (Receipt [1]), ?st1)"
    by (simp add: fresh_world_place)
  have x: "?x = OnChainOrder.make (Address 2) (Wad 100) (Address 3) (Wad 50) 10000000
      (random_nonce fresh_world) (defaultAccount fresh_world)"
    by (simp add: random_nonce_def fresh_world_def example_world_def)
  have t: "tracked ?st1 = {?x}"
    by (simp add: fresh_world_place tracked_def)
  have f: "fst (amount_filled fresh_world ?st1 (POnChainOrder ?x)) = Inr (Wad 0)"
    by (simp add: amount_filled_onchain fresh_world_def example_world_def)
  have g: "Order.amount_get ?x = Wad 100"
    by (simp add: OnChainOrder.defs Order.defs)
  from local_write_visibility [OF init placed x, of fresh_world]
  show ?thesis using t f g by simp
qed

section \<open>Operations on orders\<close>

text \<open>
  Claim C7. The request of each of \<open>amount_available\<close>, \<open>amount_filled\<close>, \<open>trade\<close>,
  \<open>can_trade\<close> and \<open>cancel_order\<close> carries \<open>0\<close>, \<open>b''\<close>, \<open>b''\<close> in the
  signature positions for an on-chain order and the order's own \<open>v\<close>, \<open>r\<close>, \<open>s\<close>
  for an off-chain order.
\<close>

theorem signature_arguments_by_variant:
  "trace (snd (amount_available w st (POnChainOrder x))) = trace st @
     [Call ''availableVolume''
        [AbiAddress (Order.token_get x), AbiUint (wad_value (Order.amount_get x)),
         AbiAddress (Order.token_give x), AbiUint (wad_value (Order.amount_give x)),
         AbiUint (Order.expires x), AbiUint (OnChainOrder.nonce x), AbiAddress (OnChainOrder.user x),
         AbiUint 0, AbiBytes [], AbiBytes []]]
   \<and> trace (snd (amount_available w st (POffChainOrder y))) = trace st @
     [Call ''availableVolume''
        [AbiAddress (Order.token_get y), AbiUint (wad_value (Order.amount_get y)),
         AbiAddress (Order.token_give y), AbiUint (wad_value (Order.amount_give y)),
         AbiUint (Order.expires y), AbiUint (OffChainOrder.nonce y), AbiAddress (OffChainOrder.user y),
         AbiUint (v y), AbiBytes (r y), AbiBytes (s y)]]
   \<and> trace (snd (amount_filled w st (POnChainOrder x))) = trace st @
     [Call ''amountFilled''
        [AbiAddress (Order.token_get x), AbiUint (wad_value (Order.amount_get x)),
         AbiAddress (Order.token_give x), AbiUint (wad_value (Order.amount_give x)),
         AbiUint (Order.expires x), AbiUint (OnChainOrder.nonce x), AbiAddress (OnChainOrder.user x),
         AbiUint 0, AbiBytes [], AbiBytes []]]
   \<and> trace (snd (amount_filled w st (POffChainOrder y))) = trace st @
     [Call ''amountFilled''
        [AbiAddress (Order.token_get y), AbiUint (wad_value (Order.amount_get y)),
         AbiAddress (Order.token_give y), AbiUint (wad_value (Order.amount_give y)),
         AbiUint (Order.expires y), AbiUint (OffChainOrder.nonce y), AbiAddress (OffChainOrder.user y),
         AbiUint (v y), AbiBytes (r y), AbiBytes (s y)]]
   \<and> trace (snd (trade w st (POnChainOrder x) (PWad a))) = trace st @
     [Transact ''trade''
        [AbiAddress (Order.token_get x), AbiUint (wad_value (Order.amount_get x)),
         AbiAddress (Order.token_give x), AbiUint (wad_value (Order.amount_give x)),
         AbiUint (Order.expires x), AbiUint (OnChainOrder.nonce x), AbiAddress (OnChainOrder.user x),
         AbiUint 0, AbiBytes [], AbiBytes [], AbiUint (wad_value a)] 0]
   \<and> trace (snd (trade w st (POffChainOrder y) (PWad a))) = trace st @
     [Transact ''trade''
        [AbiAddress (Order.token_get y), AbiUint (wad_value (Order.amount_get y)),
         AbiAddress (Order.token_give y), AbiUint (wad_value (Order.amount_give y)),
         AbiUint (Order.expires y), AbiUint (OffChainOrder.nonce y), AbiAddress (OffChainOrder.user y),
         AbiUint (v y), AbiBytes (r y), AbiBytes (s y), AbiUint (wad_value a)] 0]
   \<and> trace (snd (can_trade w st (POnChainOrder x) (PWad a))) = trace st @
     [Call ''testTrade''
        [AbiAddress (Order.token_get x), AbiUint (wad_value (Order.amount_get x)),
         AbiAddress (Order.token_give x), AbiUint (wad_value (Order.amount_give x)),
         AbiUint (Order.expires x), AbiUint (OnChainOrder.nonce x), AbiAddress (OnChainOrder.user x),
         AbiUint 0, AbiBytes [], AbiBytes [], AbiUint (wad_value a), AbiAddress (defaultAccount w)]]
   \<and> trace (snd (can_trade w st (POffChainOrder y) (PWad a))) = trace st @
     [Call ''testTrade''
        [AbiAddress (Order.token_get y), AbiUint (wad_value (Order.amount_get y)),
         AbiAddress (Order.token_give y), AbiUint (wad_value (Order.amount_give y)),
         AbiUint (Order.expires y), AbiUint (OffChainOrder.nonce y), AbiAddress (OffChainOrder.user y),
         AbiUint (v y), AbiBytes (r y), AbiBytes (s y), AbiUint (wad_value a),
         AbiAddress (defaultAccount w)]]
   \<and> trace (snd (cancel_order w st (POnChainOrder x))) = trace st @
     [Transact ''cancelOrder''
        [AbiAddress (Order.token_get x), AbiUint (wad_value (Order.amount_get x)),
         AbiAddress (Order.token_give x), AbiUint (wad_value (Order.amount_give x)),
         AbiUint (Order.expires x), AbiUint (OnChainOrder.nonce x),
         AbiUint 0, AbiBytes [], AbiBytes []] 0]
   \<and> trace (snd (cancel_order w st (POffChainOrder y))) = trace st @
     [Transact ''cancelOrder''
        [AbiAddress (Order.token_get y), AbiUint (wad_value (Order.amount_get y)),
         AbiAddress (Order.token_give y), AbiUint (wad_value (Order.amount_give y)),
         AbiUint (Order.expires y), AbiUint (OffChainOrder.nonce y),
         AbiUint (v y), AbiBytes (r y), AbiBytes (s y)] 0]"
  by (simp add: amount_available_def amount_filled_def trade_def can_trade_def cancel_order_def
      contract_call_uint_def contract_call_bool_def transact_def log_def split: sum.splits)

lemma deposit_rejects: "\<not> isinstance_Wad amount \<Longrightarrow> deposit w st amount = (Inl AssertionError, st)"
  by (cases amount) (simp_all add: deposit_def)

lemma withdraw_rejects: "\<not> isinstance_Wad amount \<Longrightarrow> withdraw w st amount = (Inl AssertionError, st)"
  by (cases amount) (simp_all add: withdraw_def)

lemma balance_of_rejects:
  "\<not> isinstance_Address usr \<Longrightarrow> balance_of w st usr = (Inl AssertionError, st)"
  by (cases usr) (simp_all add: balance_of_def)

lemma deposit_token_rejects:
  "\<not> isinstance_Address token \<or> \<not> isinstance_Wad amount \<Longrightarrow>
     deposit_token w st token amount = (Inl AssertionError, st)"
  by (cases token; cases amount) (simp_all add: deposit_token_def)

lemma withdraw_token_rejects:
  "\<not> isinstance_Address token \<or> \<not> isinstance_Wad amount \<Longrightarrow>
     withdraw_token w st token amount = (Inl AssertionError, st)"
  by (cases token; cases amount) (simp_all add: withdraw_token_def)

lemma balance_of_token_rejects:
  "\<not> isinstance_Address token \<or> \<not> isinstance_Address usr \<Longrightarrow>
     balance_of_token w st token usr = (Inl AssertionError, st)"
  by (cases token; cases usr) (simp_all add: balance_of_token_def)

lemma trade_rejects:
  "\<not> isinstance_Order order \<or> \<not> isinstance_Wad amount \<Longrightarrow>
     trade w st order amount = (Inl AssertionError, st)"
  by (auto simp: trade_def)

lemma can_trade_rejects:
  "\<not> isinstance_Order order \<or> \<not> isinstance_Wad amount \<Longrightarrow>
     can_trade w st order amount = (Inl AssertionError, st)"
  by (auto simp: can_trade_def)

lemma cancel_order_rejects:
  "\<not> isinstance_Order order \<Longrightarrow> cancel_order w st order = (Inl AssertionError, st)"
  by (simp add: cancel_order_def)

text \<open>
  Claim C8 fails on the code. A \<open>LogOrder\<close> is not an \<open>Order\<close>, yet
  \<open>amount_filled\<close> and \<open>amount_available\<close> send their contract call for it and
  return the answer, while \<open>cancel_order\<close> stops at its assertion with no request made.
\<close>

theorem amount_filled_accepts_LogOrder:
  "\<not> isinstance_Order (PLogOrder example_log)
   \<and> amount_filled example_world init_state (PLogOrder example_log) =
       (Inr (Wad 100),
        init_state\<lparr>trace :=
          [Call ''amountFilled''
             [AbiAddress (Address 2), AbiUint 250, AbiAddress (Address 3), AbiUint 50,
              AbiUint 10000000, AbiUint 8, AbiAddress (Address 0xabc),
              AbiUint 0, AbiBytes [], AbiBytes []]]\<rparr>)
   \<and> amount_available example_world init_state (PLogOrder example_log) =
       (Inr (Wad 100),
        init_state\<lparr>trace :=
          [Call ''availableVolume''
             [AbiAddress (Address 2), AbiUint 250, AbiAddress (Address 3), AbiUint 50,
              AbiUint 10000000, AbiUint 8, AbiAddress (Address 0xabc),
              AbiUint 0, AbiBytes [], AbiBytes []]]\<rparr>)
   \<and> cancel_order example_world init_state (PLogOrder example_log) = (Inl AssertionError, init_state)"
  by (simp add: amount_filled_def amount_available_def cancel_order_def contract_call_uint_def
      log_def example_world_def example_log_def init_state_def LogOrder.defs)

section \<open>The relay\<close>

lemma place_order_offchain_after_signing:
  assumes m: "order_message (self_address w) tg ag tv av ex (random_nonce w) = Inr m"
    and sg: "eth_sign w (defaultAccount w) (sha256 w m) = Inr sig"
    and pr: "fromhex (take 64 (drop 2 sig)) = Inr sr"
    and ps: "fromhex (take 64 (drop 64 (drop 2 sig))) = Inr ss"
    and pv: "fromhex (take 2 (drop 128 (drop 2 sig))) = Inr vb"
    and ov: "ord vb = Inr sv"
  shows "place_order_offchain w st tg ag tv av ex =
     (case http_post w relay_url
             (to_json (OffChainOrder.make tg ag tv av ex (random_nonce w) (defaultAccount w) sv sr ss)
                (self_address w)) 15 of
        Inl e \<Rightarrow> Inl e
      | Inr res \<Rightarrow>
          Inr (if contains success_marker (response_text res)
               then Some (OffChainOrder.make tg ag tv av ex (random_nonce w) (defaultAccount w) sv sr ss)
               else None),
      st\<lparr>trace := trace st @
         [EthSign (defaultAccount w) (sha256 w m),
          Post relay_url
            (to_json (OffChainOrder.make tg ag tv av ex (random_nonce w) (defaultAccount w) sv sr ss)
               (self_address w)) 15]\<rparr>)"
  using assms
  by (simp add: place_order_offchain_def Let_def log_def split: sum.splits)

text \<open>
  Claim C3, as the code has it. Once the relay POST has been attempted (to the relay URL,
  with a timeout of 15 seconds): an exception of the HTTP client, a timeout included,
  is the outcome of the operation; a response whose body contains the text
  \<open>"success"\<close>, quotation marks included, yields the order that was posted, and any
  other response yields \<open>None\<close>, whatever the status code. Conversely a normal return
  comes from a response, and it is an order exactly when the body contains that text.
\<close>

theorem relay_outcome:
  "(\<forall>acc h url msg t.
      place_order_offchain w st tg ag tv av ex = (result, st') \<and>
      trace st' = trace st @ [EthSign acc h, Post url msg t] \<longrightarrow>
        url = relay_url \<and> t = 15 \<and>
        (case http_post w url msg t of
           Inl e \<Rightarrow> result = Inl e
         | Inr res \<Rightarrow>
             if contains success_marker (response_text res)
             then (\<exists>x. result = Inr (Some x) \<and> msg = to_json x (self_address w))
             else result = Inr None))
   \<and> (\<forall>ro. place_order_offchain w st tg ag tv av ex = (Inr ro, st') \<longrightarrow>
         (\<exists>acc h msg res.
            trace st' = trace st @ [EthSign acc h, Post relay_url msg 15] \<and>
            http_post w relay_url msg 15 = Inr res \<and>
            (ro \<noteq> None) = contains success_marker (response_text res)))"
  by (auto simp: place_order_offchain_def Let_def log_def split: sum.splits if_splits)

lemma example_nonce: "random_nonce example_world = 42"
  by (simp add: random_nonce_def example_world_def)

lemma example_message:
  "order_message (self_address example_world) (Address 2) (Wad 100) (Address 3) (Wad 50) 10000000
      (random_nonce example_world) =
   Inr (encode_address (self_address example_world) @ encode_address (Address 2) @
        to_bytes_big 32 (nat (wad_value (Wad 100))) @ encode_address (Address 3) @
        to_bytes_big 32 (nat (wad_value (Wad 50))) @ to_bytes_big 32 (nat 10000000) @
        to_bytes_big 32 (nat (random_nonce example_world)))"
  by (rule order_message_Inr) (simp_all add: uint256_range_def example_nonce)

lemma ord_example: "ord [0x1b] = Inr 27"
  by (simp add: ord_def)

lemma example_place_offchain:
  assumes "self_address w = self_address example_world"
    and "defaultAccount w = defaultAccount example_world"
    and "entropy w = entropy example_world"
    and "eth_sign w = eth_sign example_world"
  shows "fst (place_order_offchain w init_state (Address 2) (Wad 100) (Address 3) (Wad 50) 10000000) =
     (case http_post w relay_url (to_json example_offchain_order (self_address w)) 15 of
        Inl e \<Rightarrow> Inl e
      | Inr res \<Rightarrow>
          Inr (if contains success_marker (response_text res)
               then Some example_offchain_order else None))"
proof -
  have n: "random_nonce w = 42"
    using assms(3) by (simp add: random_nonce_def example_world_def)
  have m: "order_message (self_address w) (Address 2) (Wad 100) (Address 3) (Wad 50) 10000000
      (random_nonce w) =
   Inr (encode_address (self_address example_world) @ encode_address (Address 2) @
        to_bytes_big 32 (nat (wad_value (Wad 100))) @ encode_address (Address 3) @
        to_bytes_big 32 (nat (wad_value (Wad 50))) @ to_bytes_big 32 (nat 10000000) @
        to_bytes_big 32 (nat (random_nonce example_world)))"
    using example_message assms(1) n by (simp add: example_nonce)
  have sg: "eth_sign w (defaultAccount w) (sha256 w msg) = Inr example_signature" for msg
    using assms(4) by (simp add: example_world_def)
  have d: "defaultAccount w = Address 0xabc"
    using assms(2) by (simp add: example_world_def)
  show ?thesis
    using place_order_offchain_after_signing [OF m sg example_sig_parts ord_example, of init_state]
    unfolding n d example_offchain_order_def by simp
qed

text \<open>
  Claim C3 as stated fails: a POST that times out makes the operation raise the timeout
  instead of returning \<open>None\<close>, and a response with status 500 whose body contains
  \<open>"success"\<close> yields the order.
\<close>

theorem relay_timeout_counterexample:
  "fst (place_order_offchain timeout_world init_state (Address 2) (Wad 100) (Address 3) (Wad 50) 10000000)
     = Inl Timeout
   \<and> fst (place_order_offchain server_error_world init_state (Address 2) (Wad 100) (Address 3) (Wad 50) 10000000)
     = Inr (Some example_offchain_order)"
proof -
  have "contains success_marker (''{'' @ success_marker @ '':1}'')"
    by (simp add: success_marker_def)
  then show ?thesis
    by (simp add: example_place_offchain timeout_world_def server_error_world_def)
qed

lemma example_place_offchain_trace:
  assumes "self_address w = self_address example_world"
    and "defaultAccount w = defaultAccount example_world"
    and "entropy w = entropy example_world"
    and "eth_sign w = eth_sign example_world"
  shows "\<exists>h. trace (snd (place_order_offchain w init_state (Address 2) (Wad 100) (Address 3) (Wad 50) 10000000)) =
     trace init_state @
       [EthSign (Address 0xabc) h,
        Post relay_url (to_json example_offchain_order (self_address w)) 15]"
proof -
  have n: "random_nonce w = 42"
    using assms(3) by (simp add: random_nonce_def example_world_def)
  have m: "order_message (self_address w) (Address 2) (Wad 100) (Address 3) (Wad 50) 10000000
      (random_nonce w) =
   Inr (encode_address (self_address example_world) @ encode_address (Address 2) @
        to_bytes_big 32 (nat (wad_value (Wad 100))) @ encode_address (Address 3) @
        to_bytes_big 32 (nat (wad_value (Wad 50))) @ to_bytes_big 32 (nat 10000000) @
        to_bytes_big 32 (nat (random_nonce example_world)))"
    using example_message assms(1) n by (simp add: example_nonce)
  have sg: "eth_sign w (defaultAccount w) (sha256 w msg) = Inr example_signature" for msg
    using assms(4) by (simp add: example_world_def)
  have d: "defaultAccount w = Address 0xabc"
    using assms(2) by (simp add: example_world_def)
  show ?thesis
    using place_order_offchain_after_signing [OF m sg example_sig_parts ord_example, of init_state]
    unfolding n d example_offchain_order_def by simp
qed

theorem relay_outcome_witness:
  "fst (place_order_offchain rejecting_world init_state (Address 2) (Wad 100) (Address 3) (Wad 50) 10000000)
     = Inr None
   \<and> fst (place_order_offchain example_world init_state (Address 2) (Wad 100) (Address 3) (Wad 50) 10000000)
     = Inr (Some example_offchain_order)"
proof -
  let ?run = "\<lambda>w. place_order_offchain w init_state (Address 2) (Wad 100) (Address 3) (Wad 50) 10000000"
  have s: "self_address rejecting_world = self_address example_world"
    by (simp add: rejecting_world_def)
  from example_place_offchain_trace [of rejecting_world] obtain h where
    t: "trace (snd (?run rejecting_world)) = trace init_state @
       [EthSign (Address 0xabc) h,
        Post relay_url (to_json example_offchain_order (self_address rejecting_world)) 15]"
    by (auto simp: rejecting_world_def)
  have p: "http_post rejecting_world relay_url
      (to_json example_offchain_order (self_address rejecting_world)) 15
      = Inr \<lparr>status_code = 400, response_text = ''{error}''\<rparr>"
    by (simp add: rejecting_world_def)
  have c: "\<not> contains success_marker ''{error}''"
    by (simp add: success_marker_def)
  have a: "fst (?run rejecting_world) = Inr None"
    using relay_outcome [of rejecting_world init_state "Address 2" "Wad 100" "Address 3" "Wad 50" 10000000
        "fst (?run rejecting_world)" "snd (?run rejecting_world)"] t p c
    by simp
  from example_place_offchain_trace [of example_world] obtain h' where
    t': "trace (snd (?run example_world)) = trace init_state @
       [EthSign (Address 0xabc) h',
        Post relay_url (to_json example_offchain_order (self_address example_world)) 15]"
    by auto
  have p': "http_post example_world relay_url
      (to_json example_offchain_order (self_address example_world)) 15
      = Inr \<lparr>status_code = 200, response_text = ''{'' @ success_marker @ '':1}''\<rparr>"
    by (simp add: example_world_def)
  have c': "contains success_marker (''{'' @ success_marker @ '':1}'')"
    by (simp add: success_marker_def)
  have inj: "to_json x (self_address example_world) = to_json example_offchain_order (self_address example_world)
      \<Longrightarrow> fst (?run example_world) = Inr (Some x) \<Longrightarrow> fst (?run example_world) = Inr (Some example_offchain_order)" for x
    using example_place_offchain [of example_world] p' c' by simp
  have b: "fst (?run example_world) = Inr (Some example_offchain_order)"
    using relay_outcome [of example_world init_state "Address 2" "Wad 100" "Address 3" "Wad 50" 10000000
        "fst (?run example_world)" "snd (?run example_world)"] t' p' c' inj
    by auto
  from a b show ?thesis by simp
qed

end
